theory Spec2Isabelle
  imports Complex_Main
begin

section \<open>The training loss of training/loss.py\<close>

text \<open>
  The file \<^verbatim>\<open>src/training/loss.py\<close> orchestrates calls into PyTorch and into four
  networks that are built elsewhere. The embedding keeps that split:
  \<^item> a tensor is a value of a type variable \<open>'t\<close> (it stands for the tensor together with
    its autograd graph), and every PyTorch function the file calls is a field of the
    record \<open>torch\<close>, taken as a parameter. Python numbers are reals;
  \<^item> the mutable world outside the file (the random generator, the buffers and the
    accumulated gradients of the networks) is a value of a type variable \<open>'s\<close>, threaded
    through every call that can read or change it, in the order of the source;
  \<^item> the style vectors \<open>ws\<close> (shape \<open>[batch, num_ws, w_dim]\<close>) are the list of their
    slices \<open>ws[:, i]\<close> along dimension 1, the only dimension the file indexes;
  \<^item> every \<^verbatim>\<open>raise\<close> and \<^verbatim>\<open>assert\<close> of the file, and the Python-level failures of
    the operations the embedding makes concrete (indexing a shape, the range of
    \<^verbatim>\<open>random_\<close>, a slice assignment between different lengths, a method of a
    \<^verbatim>\<open>float\<close> or of \<^verbatim>\<open>None\<close>), is an \<open>Inl\<close> result. The operations that are
    parameters are total: a failure inside PyTorch or inside a network is not modelled;
  \<^item> \<^verbatim>\<open>misc.ddp_sync(module, sync)\<close> sets how the gradients of \<open>module\<close> are synchronised
    for the calls in its block: the flag is an argument of these calls. The blocks of
    \<^verbatim>\<open>torch.autograd.profiler.record_function\<close> only label the profile and are left out,
    with the variable \<^verbatim>\<open>name\<close> that they alone use.
\<close>

subsection \<open>Python values and errors\<close>

datatype error =
    NotImplementedError
  | AssertionError
  | IndexError
  | RuntimeError
  | AttributeError
  | TypeError

text \<open>A value that is a Python number or a tensor: the accumulator \<^verbatim>\<open>loss\<close> of
  \<^verbatim>\<open>VGGPerceptualLoss.forward\<close> starts as \<^verbatim>\<open>0.0\<close>, and \<^verbatim>\<open>loss_Dr1\<close> as \<^verbatim>\<open>0\<close>.\<close>

datatype 't pyval = PyNum real | PyTensor 't

subsection \<open>The PyTorch functions the file calls\<close>

record ('t, 's) torch =
  torch_Tensor :: "real list \<Rightarrow> 't"
  torch_tensor :: "real list \<Rightarrow> 't"
  torch_zeros :: "nat list \<Rightarrow> string \<Rightarrow> 't"
  torch_cuda :: "'t \<Rightarrow> 't"
  torch_view :: "'t \<Rightarrow> int list \<Rightarrow> 't"
  torch_shape :: "'t \<Rightarrow> nat list"
  torch_repeat :: "'t \<Rightarrow> nat list \<Rightarrow> 't"
  torch_add :: "'t \<Rightarrow> 't \<Rightarrow> 't"
  torch_add_scalar :: "'t \<Rightarrow> real \<Rightarrow> 't"
  torch_sub :: "'t \<Rightarrow> 't \<Rightarrow> 't"
  torch_div :: "'t \<Rightarrow> 't \<Rightarrow> 't"
  torch_mul_scalar :: "'t \<Rightarrow> real \<Rightarrow> 't"
  torch_neg :: "'t \<Rightarrow> 't"
  torch_abs :: "'t \<Rightarrow> 't"
  torch_sign :: "'t \<Rightarrow> 't"
  torch_square :: "'t \<Rightarrow> 't"
  torch_sum :: "'t \<Rightarrow> 't"
  torch_sum_dims :: "'t \<Rightarrow> nat list \<Rightarrow> 't"
  torch_mean :: "'t \<Rightarrow> 't"
  torch_reshape :: "'t \<Rightarrow> int list \<Rightarrow> 't"
  torch_permute :: "'t \<Rightarrow> nat list \<Rightarrow> 't"
  torch_matmul :: "'t \<Rightarrow> 't \<Rightarrow> 't"
  torch_interpolate :: "'t \<Rightarrow> string \<Rightarrow> nat \<times> nat \<Rightarrow> bool \<Rightarrow> 't"
  torch_l1_loss :: "'t \<Rightarrow> 't \<Rightarrow> 't"
  torch_softplus :: "'t \<Rightarrow> 't"
  torch_detach :: "'t \<Rightarrow> 't"
  torch_set_requires_grad :: "'t \<Rightarrow> bool \<Rightarrow> 't"
  torch_autograd_grad :: "'t \<Rightarrow> 't \<Rightarrow> 't"
  torch_leaf_grad :: "'t \<Rightarrow> 't \<Rightarrow> 't"
  torch_random_range :: "int \<Rightarrow> int \<Rightarrow> 's \<Rightarrow> int \<times> 's"
  torch_rand :: "'s \<Rightarrow> real \<times> 's"
  torch_randn_like :: "'t \<Rightarrow> 's \<Rightarrow> 't \<times> 's"

text \<open>\<^verbatim>\<open>a + b\<close> where either side may be a Python number.\<close>

fun py_add :: "('t, 's) torch \<Rightarrow> 't pyval \<Rightarrow> 't pyval \<Rightarrow> 't pyval" where
  "py_add F (PyNum a) (PyNum b) = PyNum (a + b)"
| "py_add F (PyNum a) (PyTensor t) = PyTensor (torch_add_scalar F t a)"
| "py_add F (PyTensor t) (PyNum b) = PyTensor (torch_add_scalar F t b)"
| "py_add F (PyTensor t) (PyTensor u) = PyTensor (torch_add F t u)"

text \<open>\<^verbatim>\<open>t.shape[k]\<close>: indexing the shape tuple raises IndexError out of range.\<close>

definition shape_at :: "('t, 's) torch \<Rightarrow> 't \<Rightarrow> nat \<Rightarrow> error + nat" where
  "shape_at F t k =
     (if k < length (torch_shape F t) then Inr (torch_shape F t ! k) else Inl IndexError)"

subsection \<open>Modules and their parameters\<close>

text \<open>A parameter is a leaf tensor with its \<^verbatim>\<open>requires_grad\<close> flag and its accumulated
  \<^verbatim>\<open>.grad\<close>. A layer computes with the current data of its parameters and its
  \<^verbatim>\<open>training\<close> flag. A \<^verbatim>\<open>Sequential\<close> is a list of layers with a flag of its own.\<close>

record 't param =
  data :: 't
  requires_grad :: bool
  grad :: "'t option"

record 't layer =
  lparams :: "'t param list"
  ltraining :: bool
  lforward :: "'t list \<Rightarrow> bool \<Rightarrow> 't \<Rightarrow> 't"

record 't Sequential =
  seq_layers :: "'t layer list"
  seq_training :: bool

definition layer_call :: "'t layer \<Rightarrow> 't \<Rightarrow> 't" where
  "layer_call l x = lforward l (map data (lparams l)) (ltraining l) x"

definition Sequential_call :: "'t Sequential \<Rightarrow> 't \<Rightarrow> 't" where
  "Sequential_call m x = fold layer_call (seq_layers m) x"

text \<open>\<^verbatim>\<open>model.cuda()\<close> moves every parameter; \<^verbatim>\<open>features[a:b]\<close> is a new Sequential (in
  training mode, as every new module) over the same layers; \<^verbatim>\<open>.eval()\<close> clears the
  training flag of the module and of its children.\<close>

definition Module_cuda :: "('t, 's) torch \<Rightarrow> 't Sequential \<Rightarrow> 't Sequential" where
  "Module_cuda F m =
     m\<lparr>seq_layers :=
         map (\<lambda>l. l\<lparr>lparams := map (\<lambda>p. p\<lparr>data := torch_cuda F (data p)\<rparr>) (lparams l)\<rparr>)
           (seq_layers m)\<rparr>"

definition Sequential_getitem :: "'t Sequential \<Rightarrow> nat \<Rightarrow> nat \<Rightarrow> 't Sequential" where
  "Sequential_getitem m a b =
     \<lparr>seq_layers = take (b - a) (drop a (seq_layers m)), seq_training = True\<rparr>"

definition Module_eval :: "'t Sequential \<Rightarrow> 't Sequential" where
  "Module_eval m =
     \<lparr>seq_layers = map (\<lambda>l. l\<lparr>ltraining := False\<rparr>) (seq_layers m), seq_training = False\<rparr>"

text \<open>\<^verbatim>\<open>for p in bl.parameters(): p.requires_grad = False\<close>\<close>

definition freeze_parameters :: "'t Sequential \<Rightarrow> 't Sequential" where
  "freeze_parameters bl =
     bl\<lparr>seq_layers :=
          map (\<lambda>l. l\<lparr>lparams := map (\<lambda>p. p\<lparr>requires_grad := False\<rparr>) (lparams l)\<rparr>)
            (seq_layers bl)\<rparr>"

definition parameters :: "'t Sequential \<Rightarrow> 't param list" where
  "parameters bl = concat (map lparams (seq_layers bl))"

subsection \<open>VGGPerceptualLoss\<close>

record 't VGGPerceptualLoss =
  blocks :: "'t Sequential list"
  resize :: bool
  mean :: 't
  std :: 't

text \<open>\<^verbatim>\<open>__init__\<close> (lines 19-33). \<open>vgg16_features\<close> is the \<^verbatim>\<open>features\<close> module of
  \<^verbatim>\<open>torchvision.models.vgg16(pretrained=True)\<close>; every call of the source builds an
  equal copy.\<close>

definition VGGPerceptualLoss_init ::
  "('t, 's) torch \<Rightarrow> 't Sequential \<Rightarrow> bool \<Rightarrow> 't VGGPerceptualLoss" where
  "VGGPerceptualLoss_init F vgg16_features resize_arg =
     (let blocks0 =
            [Module_eval (Sequential_getitem (Module_cuda F vgg16_features) 0 4),
             Module_eval (Sequential_getitem (Module_cuda F vgg16_features) 4 9),
             Module_eval (Sequential_getitem (Module_cuda F vgg16_features) 9 16),
             Module_eval (Sequential_getitem (Module_cuda F vgg16_features) 16 23)];
          blocks1 = map freeze_parameters blocks0
      in \<lparr>blocks = blocks1,
          resize = resize_arg,
          mean = torch_view F (torch_cuda F (torch_tensor F [0.485, 0.456, 0.406])) [1, 3, 1, 1],
          std = torch_view F (torch_cuda F (torch_tensor F [0.229, 0.224, 0.225])) [1, 3, 1, 1]\<rparr>)"

text \<open>The Gram-matrix term of a style layer (lines 53-57).\<close>

definition gram_loss :: "('t, 's) torch \<Rightarrow> 't \<Rightarrow> 't \<Rightarrow> error + 't" where
  "gram_loss F x y =
     (if length (torch_shape F x) < 2 \<or> length (torch_shape F y) < 2 then Inl IndexError
      else
        (let act_x = torch_reshape F x
                       [int (torch_shape F x ! 0), int (torch_shape F x ! 1), (- 1)];
             act_y = torch_reshape F y
                       [int (torch_shape F y ! 0), int (torch_shape F y ! 1), (- 1)];
             gram_x = torch_matmul F act_x (torch_permute F act_x [0, 2, 1]);
             gram_y = torch_matmul F act_y (torch_permute F act_y [0, 2, 1])
         in Inr (torch_l1_loss F gram_x gram_y)))"

text \<open>The loop over \<^verbatim>\<open>enumerate(self.blocks)\<close> (lines 47-57), from index \<open>i\<close>.\<close>

fun forward_blocks ::
  "('t, 's) torch \<Rightarrow> nat list \<Rightarrow> nat list \<Rightarrow> nat \<Rightarrow> 't Sequential list \<Rightarrow>
   't \<Rightarrow> 't \<Rightarrow> 't pyval \<Rightarrow> error + 't pyval" where
  "forward_blocks F feature_layers style_layers i [] x y loss = Inr loss"
| "forward_blocks F feature_layers style_layers i (block # rest) x y loss =
     (let x' = Sequential_call block x;
          y' = Sequential_call block y;
          loss1 = (if i \<in> set feature_layers
                   then py_add F loss (PyTensor (torch_l1_loss F x' y')) else loss)
      in if i \<in> set style_layers
         then (case gram_loss F x' y' of
                 Inl e \<Rightarrow> Inl e
               | Inr g \<Rightarrow> forward_blocks F feature_layers style_layers (Suc i) rest x' y'
                           (py_add F loss1 (PyTensor g)))
         else forward_blocks F feature_layers style_layers (Suc i) rest x' y' loss1)"

text \<open>\<^verbatim>\<open>forward\<close> (lines 35-58).\<close>

definition forward ::
  "('t, 's) torch \<Rightarrow> 't VGGPerceptualLoss \<Rightarrow> 't \<Rightarrow> 't \<Rightarrow> nat list \<Rightarrow> nat list \<Rightarrow>
   error + 't pyval" where
  "forward F V input target feature_layers style_layers =
     (case shape_at F input 1 of
        Inl e \<Rightarrow> Inl e
      | Inr channels \<Rightarrow>
         (let input1 = (if channels \<noteq> 3 then torch_repeat F input [1, 3, 1, 1] else input);
              target1 = (if channels \<noteq> 3 then torch_repeat F target [1, 3, 1, 1] else target);
              input2 = torch_div F (torch_sub F input1 (mean V)) (std V);
              target2 = torch_div F (torch_sub F target1 (mean V)) (std V);
              input3 = (if resize V
                        then torch_interpolate F input2 ''bilinear'' (224, 224) False
                        else input2);
              target3 = (if resize V
                         then torch_interpolate F target2 ''bilinear'' (224, 224) False
                         else target2)
          in forward_blocks F feature_layers style_layers 0 (blocks V) input3 target3
               (PyNum 0.0)))"

text \<open>The default arguments of \<^verbatim>\<open>forward\<close>.\<close>

definition default_feature_layers :: "nat list" where
  "default_feature_layers = [0, 1, 2, 3]"

definition default_style_layers :: "nat list" where
  "default_style_layers = []"

subsection \<open>The base class Loss\<close>

text \<open>\<^verbatim>\<open>Loss.accumulate_gradients\<close> (lines 62-64): the body is one \<^verbatim>\<open>raise\<close>.\<close>

definition Loss_accumulate_gradients ::
  "string \<Rightarrow> 't \<Rightarrow> 't \<Rightarrow> 't \<Rightarrow> 't \<Rightarrow> 't \<Rightarrow> 't \<Rightarrow> 't \<Rightarrow> 't \<Rightarrow> bool \<Rightarrow> real \<Rightarrow>
   'w \<Rightarrow> (error + 'r) \<times> 'w" where
  "Loss_accumulate_gradients phase img_s img_t ap_s ap_t pose_s pose_t real_c gen_c sync gain =
     (\<lambda>w. (Inl NotImplementedError, w))"

subsection \<open>StyleGAN2Loss: the object and the world it runs in\<close>

text \<open>The fields \<^verbatim>\<open>__init__\<close> assigns (lines 69-84). A network is a function of its
  arguments and of the outside world. The first argument of \<open>G_mapping\<close>, \<open>G_synthesis\<close>
  and \<open>D\<close> is the flag of the \<^verbatim>\<open>misc.ddp_sync(module, sync)\<close> block the call stands in;
  the last argument of \<open>G_mapping\<close> is \<^verbatim>\<open>skip_w_avg_update\<close>.\<close>

record ('t, 's) StyleGAN2Loss =
  device :: string
  G_mapping :: "bool \<Rightarrow> 't \<Rightarrow> 't \<Rightarrow> bool \<Rightarrow> 's \<Rightarrow> 't list \<times> 's"
  G_synthesis :: "bool \<Rightarrow> 't list \<Rightarrow> 't \<Rightarrow> 's \<Rightarrow> 't \<times> 's"
  D :: "bool \<Rightarrow> 't \<Rightarrow> 't \<Rightarrow> 's \<Rightarrow> 't \<times> 's"
  ANet :: "'t \<Rightarrow> 's \<Rightarrow> 't \<times> 's"
  augment_pipe :: "('t \<Rightarrow> 's \<Rightarrow> 't \<times> 's) option"
  style_mixing_prob :: real
  r1_gamma :: real
  pl_batch_shrink :: real
  pl_decay :: real
  pl_weight :: real
  vgg_loss :: "'t VGGPerceptualLoss"
  pl_mean :: 't
  l1_weight :: real

definition StyleGAN2Loss_init ::
  "('t, 's) torch \<Rightarrow> 't Sequential \<Rightarrow> string \<Rightarrow>
   (bool \<Rightarrow> 't \<Rightarrow> 't \<Rightarrow> bool \<Rightarrow> 's \<Rightarrow> 't list \<times> 's) \<Rightarrow>
   (bool \<Rightarrow> 't list \<Rightarrow> 't \<Rightarrow> 's \<Rightarrow> 't \<times> 's) \<Rightarrow>
   ('t \<Rightarrow> 's \<Rightarrow> 't \<times> 's) \<Rightarrow>
   (bool \<Rightarrow> 't \<Rightarrow> 't \<Rightarrow> 's \<Rightarrow> 't \<times> 's) \<Rightarrow>
   ('t \<Rightarrow> 's \<Rightarrow> 't \<times> 's) option \<Rightarrow>
   real \<Rightarrow> real \<Rightarrow> real \<Rightarrow> real \<Rightarrow> real \<Rightarrow> real \<Rightarrow> ('t, 's) StyleGAN2Loss" where
  "StyleGAN2Loss_init F vgg16_features device_arg G_mapping_arg G_synthesis_arg ANet_arg D_arg
      augment_pipe_arg style_mixing_prob_arg r1_gamma_arg pl_batch_shrink_arg pl_decay_arg
      pl_weight_arg l1_weight_arg =
     \<lparr>device = device_arg,
      G_mapping = G_mapping_arg,
      G_synthesis = G_synthesis_arg,
      D = D_arg,
      ANet = ANet_arg,
      augment_pipe = augment_pipe_arg,
      style_mixing_prob = style_mixing_prob_arg,
      r1_gamma = r1_gamma_arg,
      pl_batch_shrink = pl_batch_shrink_arg,
      pl_decay = pl_decay_arg,
      pl_weight = pl_weight_arg,
      vgg_loss = VGGPerceptualLoss_init F vgg16_features True,
      pl_mean = torch_zeros F [] device_arg,
      l1_weight = l1_weight_arg\<rparr>"

text \<open>What a call can observe or change: the object itself, the outside world, and the
  calls of \<^verbatim>\<open>training_stats.report\<close> and \<^verbatim>\<open>.backward()\<close> in the order they were made.\<close>

datatype 't event = Report string "'t pyval" | Backward 't

record ('t, 's) world =
  self :: "('t, 's) StyleGAN2Loss"
  ext :: 's
  trace :: "'t event list"

type_synonym ('a, 't, 's) M = "('t, 's) world \<Rightarrow> (error + 'a) \<times> ('t, 's) world"

definition return :: "'a \<Rightarrow> ('a, 't, 's) M" where
  "return a = (\<lambda>w. (Inr a, w))"

definition raise :: "error \<Rightarrow> ('a, 't, 's) M" where
  "raise e = (\<lambda>w. (Inl e, w))"

definition bind :: "('a, 't, 's) M \<Rightarrow> ('a \<Rightarrow> ('b, 't, 's) M) \<Rightarrow> ('b, 't, 's) M" where
  "bind m f = (\<lambda>w. case m w of (Inl e, w') \<Rightarrow> (Inl e, w') | (Inr a, w') \<Rightarrow> f a w')"

definition get_self :: "(('t, 's) StyleGAN2Loss, 't, 's) M" where
  "get_self = (\<lambda>w. (Inr (self w), w))"

definition ext_call :: "('s \<Rightarrow> 'a \<times> 's) \<Rightarrow> ('a, 't, 's) M" where
  "ext_call f = (\<lambda>w. (Inr (fst (f (ext w))), w\<lparr>ext := snd (f (ext w))\<rparr>))"

definition lift_result :: "error + 'a \<Rightarrow> ('a, 't, 's) M" where
  "lift_result r = (\<lambda>w. (r, w))"

definition report :: "string \<Rightarrow> 't pyval \<Rightarrow> (unit, 't, 's) M" where
  "report name v = (\<lambda>w. (Inr (), w\<lparr>trace := trace w @ [Report name v]\<rparr>))"

text \<open>\<^verbatim>\<open>loss.backward()\<close> adds the gradient of \<open>loss\<close> to the \<^verbatim>\<open>.grad\<close> of every leaf that
  has \<^verbatim>\<open>requires_grad\<close> set. For the leaves outside the file the call is recorded in the
  trace; for the parameters the object owns (those of \<open>vgg_loss\<close>) it is written out.\<close>

definition accumulate_grad :: "('t, 's) torch \<Rightarrow> 't \<Rightarrow> 't param \<Rightarrow> 't param" where
  "accumulate_grad F loss p =
     (if requires_grad p
      then p\<lparr>grad := Some (case grad p of
                             None \<Rightarrow> torch_leaf_grad F loss (data p)
                           | Some g \<Rightarrow> torch_add F g (torch_leaf_grad F loss (data p)))\<rparr>
      else p)"

definition Sequential_backward :: "('t, 's) torch \<Rightarrow> 't \<Rightarrow> 't Sequential \<Rightarrow> 't Sequential" where
  "Sequential_backward F loss m =
     m\<lparr>seq_layers :=
         map (\<lambda>l. l\<lparr>lparams := map (accumulate_grad F loss) (lparams l)\<rparr>) (seq_layers m)\<rparr>"

definition VGG_backward ::
  "('t, 's) torch \<Rightarrow> 't \<Rightarrow> 't VGGPerceptualLoss \<Rightarrow> 't VGGPerceptualLoss" where
  "VGG_backward F loss V = V\<lparr>blocks := map (Sequential_backward F loss) (blocks V)\<rparr>"

definition backward :: "('t, 's) torch \<Rightarrow> 't \<Rightarrow> (unit, 't, 's) M" where
  "backward F loss =
     (\<lambda>w. (Inr (),
           w\<lparr>trace := trace w @ [Backward loss],
             self := (self w)\<lparr>vgg_loss := VGG_backward F loss (vgg_loss (self w))\<rparr>\<rparr>))"

text \<open>\<^verbatim>\<open>self.vgg_loss(input, target)\<close> with the default layer arguments.\<close>

definition vgg_loss_call :: "('t, 's) torch \<Rightarrow> 't \<Rightarrow> 't \<Rightarrow> ('t pyval, 't, 's) M" where
  "vgg_loss_call F input target =
     (\<lambda>w. (forward F (vgg_loss (self w)) input target default_feature_layers
              default_style_layers, w))"

subsection \<open>Slices along dimension 1\<close>

text \<open>The start of the Python slice \<^verbatim>\<open>[k:]\<close> over \<open>n\<close> elements, for any integer \<open>k\<close>.\<close>

definition slice_start :: "int \<Rightarrow> nat \<Rightarrow> nat" where
  "slice_start k n = (if k < 0 then nat (max 0 (int n + k)) else min (nat k) n)"

text \<open>\<^verbatim>\<open>t[:, k:]\<close>\<close>

definition getitem_from :: "'a list \<Rightarrow> int \<Rightarrow> 'a list" where
  "getitem_from xs k = drop (slice_start k (length xs)) xs"

text \<open>\<^verbatim>\<open>t[:, k:] = src\<close>: the source has the length of the slice, or length 1 (then it is
  broadcast); anything else is a RuntimeError.\<close>

definition setitem_from :: "'a list \<Rightarrow> int \<Rightarrow> 'a list \<Rightarrow> error + 'a list" where
  "setitem_from xs k src =
     (let start = slice_start k (length xs);
          n = length xs - start
      in if length src = n then Inr (take start xs @ src)
         else if length src = 1 then Inr (take start xs @ replicate n (hd src))
         else Inl RuntimeError)"

subsection \<open>run_G and run_D\<close>

text \<open>\<^verbatim>\<open>run_G\<close> (lines 86-97). \<^verbatim>\<open>random_(1, n)\<close> raises when the range is empty. The
  three draws are made in the order of the source: the cutoff, the uniform number that
  \<^verbatim>\<open>torch.where\<close> compares with \<^verbatim>\<open>style_mixing_prob\<close>, the second latent code.\<close>

definition run_G ::
  "('t, 's) torch \<Rightarrow> 't \<Rightarrow> 't \<Rightarrow> 't \<Rightarrow> bool \<Rightarrow> ('t \<times> 't list, 't, 's) M" where
  "run_G F P A c sync =
     bind get_self (\<lambda>L.
     bind (ext_call (ANet L A)) (\<lambda>z.
     bind (ext_call (G_mapping L sync z c False)) (\<lambda>ws.
     bind (if style_mixing_prob L > 0
           then
             (if 1 < length ws
              then
                bind (ext_call (torch_random_range F 1 (int (length ws)))) (\<lambda>cutoff0.
                bind (ext_call (torch_rand F)) (\<lambda>u.
                (let cutoff = (if u < style_mixing_prob L then cutoff0 else int (length ws)) in
                 bind (ext_call (torch_randn_like F z)) (\<lambda>z2.
                 bind (ext_call (G_mapping L sync z2 c True)) (\<lambda>ws2.
                 lift_result (setitem_from ws cutoff (getitem_from ws2 cutoff)))))))
              else raise RuntimeError)
           else return ws) (\<lambda>ws'.
     bind (ext_call (G_synthesis L sync ws' P)) (\<lambda>img.
     return (img, ws'))))))"

text \<open>\<^verbatim>\<open>run_D\<close> (lines 99-104).\<close>

definition run_D :: "'t \<Rightarrow> 't \<Rightarrow> bool \<Rightarrow> ('t, 't, 's) M" where
  "run_D img c sync =
     bind get_self (\<lambda>L.
     bind (case augment_pipe L of
             Some pipe \<Rightarrow> ext_call (pipe img)
           | None \<Rightarrow> return img) (\<lambda>img'.
     ext_call (D L sync img' c)))"

subsection \<open>StyleGAN2Loss.accumulate_gradients\<close>

text \<open>The five local variables that start as \<^verbatim>\<open>None\<close> (line 113).\<close>

record 't locals =
  loss_l1 :: "'t option"
  loss_vgg :: "'t pyval option"
  loss_Dgen :: "'t option"
  loss_Gmain :: "'t option"
  loss_Dreal :: "'t option"

text \<open>\<^verbatim>\<open>t + v\<close> for a tensor \<open>t\<close> and a number or tensor \<open>v\<close>; \<^verbatim>\<open>t + v\<close> for a variable
  \<open>v\<close> that may still be \<^verbatim>\<open>None\<close> (a TypeError then).\<close>

definition tensor_add_py :: "('t, 's) torch \<Rightarrow> 't \<Rightarrow> 't pyval \<Rightarrow> 't" where
  "tensor_add_py F t v =
     (case v of PyNum r \<Rightarrow> torch_add_scalar F t r | PyTensor u \<Rightarrow> torch_add F t u)"

definition add_opt :: "('t, 's) torch \<Rightarrow> 't option \<Rightarrow> 't \<Rightarrow> error + 't" where
  "add_opt F v t = (case v of None \<Rightarrow> Inl TypeError | Some u \<Rightarrow> Inr (torch_add F u t))"

definition opt_add :: "('t, 's) torch \<Rightarrow> 't \<Rightarrow> 't option \<Rightarrow> error + 't" where
  "opt_add F t v = (case v of None \<Rightarrow> Inl TypeError | Some u \<Rightarrow> Inr (torch_add F t u))"

text \<open>Lines 115-127, the body of \<^verbatim>\<open>if do_GPercep:\<close>.\<close>

definition GPercep_body ::
  "('t, 's) torch \<Rightarrow> 't \<Rightarrow> 't \<Rightarrow> 't \<Rightarrow> 't \<Rightarrow> 't \<Rightarrow> 't \<Rightarrow> bool \<Rightarrow> real \<Rightarrow> 't locals \<Rightarrow>
   ('t locals, 't, 's) M" where
  "GPercep_body F img_s img_t ap_s pose_s pose_t gen_c sync gain lv =
     bind (run_G F pose_s ap_s gen_c sync) (\<lambda>(gen_img_s, gen_ws).
     bind (run_G F pose_t ap_s gen_c sync) (\<lambda>(gen_img_t, gen_ws).
     (let loss_l1_s = torch_abs F (torch_l1_loss F img_s gen_img_s);
          loss_l1_t = torch_abs F (torch_l1_loss F img_t gen_img_t);
          l1 = torch_add F loss_l1_s loss_l1_t
      in
     bind (vgg_loss_call F img_s gen_img_s) (\<lambda>v1.
     bind (vgg_loss_call F img_s gen_img_s) (\<lambda>v2.
     (let vgg = py_add F v1 v2 in
     bind (report ''Loss/G/L1_loss'' (PyTensor l1)) (\<lambda>_.
     bind (report ''Loss/G/Perceptual'' vgg) (\<lambda>_.
     bind (backward F (torch_mul_scalar F (torch_mean F (tensor_add_py F l1 vgg)) gain)) (\<lambda>_.
     return (lv\<lparr>loss_l1 := Some l1, loss_vgg := Some vgg\<rparr>))))))))))"

text \<open>Lines 129-141, the body of \<^verbatim>\<open>if do_Gmain:\<close>.\<close>

definition Gmain_body ::
  "('t, 's) torch \<Rightarrow> 't \<Rightarrow> 't \<Rightarrow> 't \<Rightarrow> 't \<Rightarrow> bool \<Rightarrow> real \<Rightarrow> 't locals \<Rightarrow>
   ('t locals, 't, 's) M" where
  "Gmain_body F ap_s pose_s pose_t gen_c sync gain lv =
     bind (run_G F pose_s ap_s gen_c sync) (\<lambda>(gen_img_s, gen_ws).
     bind (run_G F pose_t ap_s gen_c sync) (\<lambda>(gen_img_t, gen_ws).
     bind (run_D gen_img_s gen_c False) (\<lambda>gen_logits_s.
     bind (run_D gen_img_t gen_c False) (\<lambda>gen_logits_t.
     (let gen_logits = torch_add F gen_logits_s gen_logits_t in
     bind (report ''Loss/scores/fake'' (PyTensor gen_logits)) (\<lambda>_.
     bind (report ''Loss/signs/fake'' (PyTensor (torch_sign F gen_logits))) (\<lambda>_.
     (let l = torch_softplus F (torch_neg F gen_logits) in
     bind (report ''Loss/G/loss'' (PyTensor l)) (\<lambda>_.
     bind (backward F (torch_mul_scalar F (torch_mean F l) gain)) (\<lambda>_.
     return (lv\<lparr>loss_Gmain := Some l\<rparr>)))))))))))"

text \<open>Lines 145-154, the body of the first \<^verbatim>\<open>if do_Dmain:\<close>.\<close>

definition Dgen_body ::
  "('t, 's) torch \<Rightarrow> 't \<Rightarrow> 't \<Rightarrow> 't \<Rightarrow> real \<Rightarrow> 't locals \<Rightarrow> ('t locals, 't, 's) M" where
  "Dgen_body F ap_s pose_s gen_c gain lv =
     bind (run_G F pose_s ap_s gen_c False) (\<lambda>(gen_img_s, gen_ws).
     bind (run_D gen_img_s gen_c False) (\<lambda>gen_logits.
     bind (report ''Loss/scores/fake'' (PyTensor gen_logits)) (\<lambda>_.
     bind (report ''Loss/signs/fake'' (PyTensor (torch_sign F gen_logits))) (\<lambda>_.
     (let l = torch_softplus F gen_logits in
     bind (backward F (torch_mul_scalar F (torch_mean F l) gain)) (\<lambda>_.
     return (lv\<lparr>loss_Dgen := Some l\<rparr>)))))))"

text \<open>Lines 174-183: \<^verbatim>\<open>loss_Dr1 = 0\<close>, then the body of \<^verbatim>\<open>if do_Dr1:\<close>.\<close>

definition Dr1_body ::
  "('t, 's) torch \<Rightarrow> bool \<Rightarrow> 't \<Rightarrow> 't \<Rightarrow> 't \<Rightarrow> ('t pyval, 't, 's) M" where
  "Dr1_body F do_Dr1 real_logits real_img_t_tmp real_img_s_tmp =
     (if do_Dr1
      then
        bind get_self (\<lambda>L.
        (let r1_grads_t = torch_autograd_grad F (torch_sum F real_logits) real_img_t_tmp;
             r1_grads_s = torch_autograd_grad F (torch_sum F real_logits) real_img_s_tmp;
             r1_grads = torch_add F r1_grads_t r1_grads_s;
             r1_penalty = torch_sum_dims F (torch_square F r1_grads) [1, 2, 3];
             loss_Dr1 = torch_mul_scalar F r1_penalty (r1_gamma L / 2)
         in
        bind (report ''Loss/r1_penalty'' (PyTensor r1_penalty)) (\<lambda>_.
        bind (report ''Loss/D/reg'' (PyTensor loss_Dr1)) (\<lambda>_.
        return (PyTensor loss_Dr1)))))
      else return (PyNum 0))"

text \<open>Lines 158-191, the body of \<^verbatim>\<open>if do_Dmain or do_Dr1:\<close>.\<close>

definition Dreal_Dr1_body ::
  "('t, 's) torch \<Rightarrow> bool \<Rightarrow> bool \<Rightarrow> 't \<Rightarrow> 't \<Rightarrow> 't \<Rightarrow> bool \<Rightarrow> real \<Rightarrow> 't locals \<Rightarrow>
   ('t locals, 't, 's) M" where
  "Dreal_Dr1_body F do_Dmain do_Dr1 img_s img_t real_c sync gain lv =
     (let real_img_s_tmp = torch_set_requires_grad F (torch_detach F img_s) do_Dr1;
          real_img_t_tmp = torch_set_requires_grad F (torch_detach F img_t) do_Dr1
      in
     bind (run_D real_img_s_tmp real_c sync) (\<lambda>real_s_logits.
     bind (run_D real_img_t_tmp real_c sync) (\<lambda>real_t_logits.
     (let real_logits = torch_add F real_t_logits real_s_logits in
     bind (report ''Loss/scores/real'' (PyTensor real_logits)) (\<lambda>_.
     bind (report ''Loss/signs/real'' (PyTensor (torch_sign F real_logits))) (\<lambda>_.
     bind (if do_Dmain
           then
             (let l = torch_softplus F (torch_neg F real_logits) in
              bind (lift_result (add_opt F (loss_Dgen lv) l)) (\<lambda>d.
              bind (report ''Loss/D/loss'' (PyTensor d)) (\<lambda>_.
              return (lv\<lparr>loss_Dreal := Some l\<rparr>))))
           else return lv) (\<lambda>lv'.
     bind (Dr1_body F do_Dr1 real_logits real_img_t_tmp real_img_s_tmp) (\<lambda>loss_Dr1.
     bind (if do_Dmain \<and> do_Dr1
           then
             bind (lift_result (opt_add F (torch_mul_scalar F real_logits 0) (loss_Dreal lv')))
               (\<lambda>a.
             backward F (torch_mul_scalar F (torch_mean F (tensor_add_py F a loss_Dr1)) gain))
           else if do_Dr1
           then
             backward F (torch_mul_scalar F
               (torch_mean F (tensor_add_py F (torch_mul_scalar F real_logits 0) loss_Dr1)) gain)
           else
             bind (lift_result (opt_add F (torch_mul_scalar F real_logits 0) (loss_Dreal lv')))
               (\<lambda>a.
             backward F (torch_mul_scalar F (torch_mean F a) gain))) (\<lambda>_.
     return lv')))))))))"

text \<open>Lines 193-204: a variable that is still \<^verbatim>\<open>None\<close> becomes
  \<^verbatim>\<open>torch.Tensor([0]).cuda()\<close>, and the five means are returned. \<^verbatim>\<open>loss_vgg.mean()\<close> on
  a Python float is an AttributeError.\<close>

definition zero_loss :: "('t, 's) torch \<Rightarrow> 't" where
  "zero_loss F = torch_cuda F (torch_Tensor F [0])"

definition mean_py :: "('t, 's) torch \<Rightarrow> 't pyval \<Rightarrow> error + 't" where
  "mean_py F v = (case v of PyNum r \<Rightarrow> Inl AttributeError | PyTensor t \<Rightarrow> Inr (torch_mean F t))"

definition finish ::
  "('t, 's) torch \<Rightarrow> 't locals \<Rightarrow> ('t \<times> 't \<times> 't \<times> 't \<times> 't, 't, 's) M" where
  "finish F lv =
     (let l1 = (case loss_l1 lv of None \<Rightarrow> zero_loss F | Some t \<Rightarrow> t);
          vgg = (case loss_vgg lv of None \<Rightarrow> PyTensor (zero_loss F) | Some v \<Rightarrow> v);
          gmain = (case loss_Gmain lv of None \<Rightarrow> zero_loss F | Some t \<Rightarrow> t);
          dgen = (case loss_Dgen lv of None \<Rightarrow> zero_loss F | Some t \<Rightarrow> t);
          dreal = (case loss_Dreal lv of None \<Rightarrow> zero_loss F | Some t \<Rightarrow> t)
      in
     bind (lift_result (mean_py F vgg)) (\<lambda>vgg_mean.
     return (torch_mean F l1, vgg_mean, torch_mean F dreal, torch_mean F gmain,
             torch_mean F dgen)))"

definition phases :: "string list" where
  "phases = [''Gmain'', ''Greg'', ''Gboth'', ''Dmain'', ''Dreg'', ''Dboth'']"

text \<open>The part of \<^verbatim>\<open>accumulate_gradients\<close> after the flags are set (lines 113-191): it
  returns the five local variables.\<close>

definition accumulate_locals ::
  "('t, 's) torch \<Rightarrow> bool \<Rightarrow> bool \<Rightarrow> bool \<Rightarrow> bool \<Rightarrow>
   't \<Rightarrow> 't \<Rightarrow> 't \<Rightarrow> 't \<Rightarrow> 't \<Rightarrow> 't \<Rightarrow> 't \<Rightarrow> 't \<Rightarrow> bool \<Rightarrow> real \<Rightarrow> ('t locals, 't, 's) M" where
  "accumulate_locals F do_Gmain do_Dmain do_Dr1 do_GPercep
      img_s img_t ap_s ap_t pose_s pose_t real_c gen_c sync gain =
     (let lv0 = \<lparr>loss_l1 = None, loss_vgg = None, loss_Dgen = None, loss_Gmain = None,
                 loss_Dreal = None\<rparr>
      in
     bind (if do_GPercep
           then GPercep_body F img_s img_t ap_s pose_s pose_t gen_c sync gain lv0
           else return lv0) (\<lambda>lv1.
     bind (if do_Gmain
           then Gmain_body F ap_s pose_s pose_t gen_c sync gain lv1
           else return lv1) (\<lambda>lv2.
     bind (if do_Dmain
           then Dgen_body F ap_s pose_s gen_c gain lv2
           else return lv2) (\<lambda>lv3.
     (if do_Dmain \<or> do_Dr1
      then Dreal_Dr1_body F do_Dmain do_Dr1 img_s img_t real_c sync gain lv3
      else return lv3)))))"

text \<open>\<^verbatim>\<open>accumulate_gradients\<close> (lines 106-204).\<close>

definition accumulate_gradients ::
  "('t, 's) torch \<Rightarrow> string \<Rightarrow> 't \<Rightarrow> 't \<Rightarrow> 't \<Rightarrow> 't \<Rightarrow> 't \<Rightarrow> 't \<Rightarrow> 't \<Rightarrow> 't \<Rightarrow> bool \<Rightarrow> real \<Rightarrow>
   ('t \<times> 't \<times> 't \<times> 't \<times> 't, 't, 's) M" where
  "accumulate_gradients F phase img_s img_t ap_s ap_t pose_s pose_t real_c gen_c sync gain =
     (if \<not> (phase \<in> set phases) then raise AssertionError
      else
        bind get_self (\<lambda>L.
        (let do_Gmain = (phase \<in> set [''Gmain'', ''Gboth'']);
             do_Dmain = (phase \<in> set [''Dmain'', ''Dboth'']);
             do_Dr1 = (phase \<in> set [''Dreg'', ''Dboth''] \<and> r1_gamma L \<noteq> 0);
             do_GPercep = (phase \<in> set [''Gmain'', ''Gboth''])
         in
        bind (accumulate_locals F do_Gmain do_Dmain do_Dr1 do_GPercep
                img_s img_t ap_s ap_t pose_s pose_t real_c gen_c sync gain) (finish F))))"

subsection \<open>Predicates used in the statements\<close>

text \<open>The mapping network returns \<open>num_ws\<close> style vectors on every call (its \<^verbatim>\<open>num_ws\<close>
  is a constant of the network).\<close>

definition mapping_contract :: "('t, 's) StyleGAN2Loss \<Rightarrow> nat \<Rightarrow> bool" where
  "mapping_contract L num_ws =
     (\<forall>sync z c skip s. length (fst (G_mapping L sync z c skip s)) = num_ws)"

text \<open>A frozen feature extractor: every block and every layer is in eval mode, and no
  parameter requires a gradient.\<close>

definition frozen :: "'t VGGPerceptualLoss \<Rightarrow> bool" where
  "frozen V =
     (\<forall>bl \<in> set (blocks V).
        \<not> seq_training bl \<and>
        (\<forall>l \<in> set (seq_layers bl). \<not> ltraining l) \<and>
        (\<forall>p \<in> set (parameters bl). \<not> requires_grad p))"

text \<open>A computation that leaves the object as it found it, whenever the feature extractor
  of the object is frozen.\<close>

definition preserves_self :: "('a, 't, 's) M \<Rightarrow> bool" where
  "preserves_self m = (\<forall>w. frozen (vgg_loss (self w)) \<longrightarrow> self (snd (m w)) = self w)"


text \<open>The object with other values in the four fields \<^verbatim>\<open>l1_weight\<close>,
  \<^verbatim>\<open>pl_batch_shrink\<close>, \<^verbatim>\<open>pl_decay\<close> and \<^verbatim>\<open>pl_weight\<close>.\<close>

definition with_unused ::
  "('t, 's) StyleGAN2Loss \<Rightarrow> real \<Rightarrow> real \<Rightarrow> real \<Rightarrow> real \<Rightarrow> ('t, 's) StyleGAN2Loss" where
  "with_unused L l1w plbs pld plw =
     L\<lparr>l1_weight := l1w, pl_batch_shrink := plbs, pl_decay := pld, pl_weight := plw\<rparr>"

text \<open>The world whose object has other values in these four fields.\<close>

definition set_unused ::
  "('t, 's) world \<Rightarrow> real \<Rightarrow> real \<Rightarrow> real \<Rightarrow> real \<Rightarrow> ('t, 's) world" where
  "set_unused w l1w plbs pld plw = w\<lparr>self := with_unused (self w) l1w plbs pld plw\<rparr>"

text \<open>A computation that does not read the four fields: run from a world that differs in
  them only, it gives the same result and a final world that differs in them only.\<close>

definition ignores_unused :: "('a, 't, 's) M \<Rightarrow> bool" where
  "ignores_unused m =
     (\<forall>w l1w plbs pld plw.
        m (set_unused w l1w plbs pld plw) =
          (fst (m w), set_unused (snd (m w)) l1w plbs pld plw))"

text \<open>The local variables of line 113: all \<^verbatim>\<open>None\<close>.\<close>

definition lv0 :: "'t locals" where
  "lv0 = \<lparr>loss_l1 = None, loss_vgg = None, loss_Dgen = None, loss_Gmain = None,
            loss_Dreal = None\<rparr>"



text \<open>The values that a list of events reports under one name, in order.\<close>

fun reported :: "string \<Rightarrow> 't event list \<Rightarrow> 't pyval list" where
  "reported name [] = []"
| "reported name (Report n v # es) = (if n = name then v # reported name es else reported name es)"
| "reported name (Backward t # es) = reported name es"

subsection \<open>A small instance\<close>

text \<open>An instance on which the definitions can be run: a tensor is one real number, the
  outside world is a counter of the calls made, the generators return fixed draws, and the
  pretrained network has five layers that each add their parameter. The object is built by
  \<open>StyleGAN2Loss_init\<close> with the default arguments of the constructor.\<close>

definition toy_torch :: "(real, nat) torch" where
  "toy_torch =
     \<lparr>torch_Tensor = sum_list,
      torch_tensor = sum_list,
      torch_zeros = (\<lambda>shape dev. 0),
      torch_cuda = (\<lambda>t. t),
      torch_view = (\<lambda>t shape. t),
      torch_shape = (\<lambda>t. [1, 3, 1, 1]),
      torch_repeat = (\<lambda>t reps. t),
      torch_add = (\<lambda>a b. a + b),
      torch_add_scalar = (\<lambda>a r. a + r),
      torch_sub = (\<lambda>a b. a - b),
      torch_div = (\<lambda>a b. a / b),
      torch_mul_scalar = (\<lambda>a r. a * r),
      torch_neg = (\<lambda>a. - a),
      torch_abs = (\<lambda>a. \<bar>a\<bar>),
      torch_sign = (\<lambda>a. sgn a),
      torch_square = (\<lambda>a. a * a),
      torch_sum = (\<lambda>a. a),
      torch_sum_dims = (\<lambda>a dims. a),
      torch_mean = (\<lambda>a. a),
      torch_reshape = (\<lambda>t shape. t),
      torch_permute = (\<lambda>t dims. t),
      torch_matmul = (\<lambda>a b. a * b),
      torch_interpolate = (\<lambda>t mode size align. t),
      torch_l1_loss = (\<lambda>a b. \<bar>a - b\<bar>),
      torch_softplus = (\<lambda>a. \<bar>a\<bar> + 1),
      torch_detach = (\<lambda>t. t),
      torch_set_requires_grad = (\<lambda>t b. t),
      torch_autograd_grad = (\<lambda>out inp. inp),
      torch_leaf_grad = (\<lambda>out leaf. 1),
      torch_random_range = (\<lambda>lo hi s. (lo, Suc s)),
      torch_rand = (\<lambda>s. (1 / 2, Suc s)),
      torch_randn_like = (\<lambda>t s. (t + 1, Suc s))\<rparr>"

definition toy_layer :: "real layer" where
  "toy_layer =
     \<lparr>lparams = [\<lparr>data = 2, requires_grad = True, grad = None\<rparr>],
      ltraining = True,
      lforward = (\<lambda>ps training x. x + sum_list ps)\<rparr>"

definition toy_features :: "real Sequential" where
  "toy_features = \<lparr>seq_layers = replicate 5 toy_layer, seq_training = True\<rparr>"

definition toy_G_mapping :: "bool \<Rightarrow> real \<Rightarrow> real \<Rightarrow> bool \<Rightarrow> nat \<Rightarrow> real list \<times> nat" where
  "toy_G_mapping sync z c skip s = ([z, z + c], Suc s)"

definition toy_G_synthesis :: "bool \<Rightarrow> real list \<Rightarrow> real \<Rightarrow> nat \<Rightarrow> real \<times> nat" where
  "toy_G_synthesis sync ws P s = (sum_list ws + P, Suc s)"

definition toy_D :: "bool \<Rightarrow> real \<Rightarrow> real \<Rightarrow> nat \<Rightarrow> real \<times> nat" where
  "toy_D sync img c s = (img - c, Suc s)"

definition toy_ANet :: "real \<Rightarrow> nat \<Rightarrow> real \<times> nat" where
  "toy_ANet A s = (A + 1, Suc s)"

definition toy_augment :: "real \<Rightarrow> nat \<Rightarrow> real \<times> nat" where
  "toy_augment img s = (2 * img, Suc s)"

definition toy_loss :: "(real, nat) StyleGAN2Loss" where
  "toy_loss =
     StyleGAN2Loss_init toy_torch toy_features ''cuda'' toy_G_mapping toy_G_synthesis toy_ANet
       toy_D None 0.9 10 2 0.01 2 50"

definition toy_world :: "(real, nat) world" where
  "toy_world = \<lparr>self = toy_loss, ext = 0, trace = []\<rparr>"

text \<open>A world whose object is built with other values of the constructor arguments
  \<^verbatim>\<open>pl_batch_shrink\<close>, \<^verbatim>\<open>pl_decay\<close>, \<^verbatim>\<open>pl_weight\<close> and \<^verbatim>\<open>l1_weight\<close>.\<close>

definition toy_world_other :: "(real, nat) world" where
  "toy_world_other =
     \<lparr>self = StyleGAN2Loss_init toy_torch toy_features ''cuda'' toy_G_mapping toy_G_synthesis
               toy_ANet toy_D None 0.9 10 1 1 0 0,
      ext = 0, trace = []\<rparr>"

text \<open>The same world with an augmentation pipe.\<close>

definition toy_world_augmented :: "(real, nat) world" where
  "toy_world_augmented =
     toy_world\<lparr>self := (self toy_world)\<lparr>augment_pipe := Some toy_augment\<rparr>\<rparr>"

section \<open>Lemmas about the embedding\<close>

lemma bind_Inr: "m w = (Inr a, w') \<Longrightarrow> bind m f w = f a w'"
  by (simp add: bind_def)

lemma bind_Inl: "m w = (Inl e, w') \<Longrightarrow> bind m f w = (Inl e, w')"
  by (simp add: bind_def)

lemma bind_return: "bind (return a) f w = f a w"
  by (simp add: bind_def return_def)

lemma bind_get_self: "bind get_self f w = f (self w) w"
  by (simp add: bind_def get_self_def)

lemma bind_ext_call:
  "bind (ext_call g) f w = f (fst (g (ext w))) (w\<lparr>ext := snd (g (ext w))\<rparr>)"
  by (simp add: bind_def ext_call_def)

lemma bind_report:
  "bind (report name v) f w = f () (w\<lparr>trace := trace w @ [Report name v]\<rparr>)"
  by (simp add: bind_def report_def)

lemma bind_lift_Inr: "bind (lift_result (Inr a)) f w = f a w"
  by (simp add: bind_def lift_result_def)

lemma bind_lift_Inl: "bind (lift_result (Inl e)) f w = (Inl e, w)"
  by (simp add: bind_def lift_result_def)

lemma bind_lift:
  "bind (lift_result r) f w = (case r of Inl e \<Rightarrow> (Inl e, w) | Inr a \<Rightarrow> f a w)"
  by (simp add: bind_def lift_result_def split: sum.splits)

lemma return_apply: "return a w = (Inr a, w)"
  by (simp add: return_def)

lemma raise_apply: "raise e w = (Inl e, w)"
  by (simp add: raise_def)

lemma ext_call_apply: "ext_call g w = (Inr (fst (g (ext w))), w\<lparr>ext := snd (g (ext w))\<rparr>)"
  by (simp add: ext_call_def)

lemma bind_assoc: "bind (bind m f) g = bind m (\<lambda>x. bind (f x) g)"
  by (auto simp: bind_def fun_eq_iff split: prod.splits sum.splits)

lemma bind_if: "bind (if b then m else n) f = (if b then bind m f else bind n f)"
  by simp

lemma bind_raise: "bind (raise e) f w = (Inl e, w)"
  by (simp add: bind_def raise_def)

lemmas M_simps = bind_assoc bind_if bind_get_self bind_ext_call bind_return bind_report
  bind_lift_Inr bind_lift_Inl bind_raise return_apply raise_apply ext_call_apply

lemma setitem_from_same_length:
  "length ys = length xs \<Longrightarrow>
   setitem_from xs k (getitem_from ys k) =
     Inr (take (slice_start k (length xs)) xs @ drop (slice_start k (length xs)) ys)"
  by (simp add: setitem_from_def getitem_from_def Let_def)



lemma run_G_frame:
  "self (snd (run_G F P A c sync w)) = self w \<and> trace (snd (run_G F P A c sync w)) = trace w"
  by (simp add: run_G_def M_simps bind_lift Let_def split: sum.splits)

lemma run_G_total:
  assumes "mapping_contract (self w) num_ws" "style_mixing_prob (self w) > 0 \<longrightarrow> 1 < num_ws"
  shows "\<exists>img ws' w'. run_G F P A c sync w = (Inr (img, ws'), w') \<and> self w' = self w
            \<and> trace w' = trace w"
  using assms
  by (simp add: run_G_def M_simps Let_def
      mapping_contract_def setitem_from_same_length)

lemma run_D_total:
  "\<exists>l w'. run_D img c sync w = (Inr l, w') \<and> self w' = self w \<and> trace w' = trace w"
  by (simp add: run_D_def M_simps split: option.splits)

lemma accumulate_grad_frozen: "\<not> requires_grad p \<Longrightarrow> accumulate_grad F loss p = p"
  by (simp add: accumulate_grad_def)

lemma Sequential_backward_frozen:
  assumes "\<forall>p \<in> set (parameters bl). \<not> requires_grad p"
  shows "Sequential_backward F loss bl = bl"
proof -
  have "map (\<lambda>l. l\<lparr>lparams := map (accumulate_grad F loss) (lparams l)\<rparr>) (seq_layers bl)
        = seq_layers bl"
  proof (rule map_idI)
    fix l assume l: "l \<in> set (seq_layers bl)"
    have "map (accumulate_grad F loss) (lparams l) = lparams l"
    proof (rule map_idI)
      fix p assume "p \<in> set (lparams l)"
      with l assms have "\<not> requires_grad p" by (auto simp: parameters_def)
      then show "accumulate_grad F loss p = p" by (rule accumulate_grad_frozen)
    qed
    then show "l\<lparr>lparams := map (accumulate_grad F loss) (lparams l)\<rparr> = l" by simp
  qed
  then show ?thesis by (simp add: Sequential_backward_def)
qed

lemma VGG_backward_frozen: "frozen V \<Longrightarrow> VGG_backward F loss V = V"
proof -
  assume f: "frozen V"
  have "map (Sequential_backward F loss) (blocks V) = blocks V"
    by (rule map_idI) (use f in \<open>auto simp: frozen_def intro: Sequential_backward_frozen\<close>)
  then show ?thesis by (simp add: VGG_backward_def)
qed

lemma backward_frozen:
  "frozen (vgg_loss (self w)) \<Longrightarrow>
   backward F t w = (Inr (), w\<lparr>trace := trace w @ [Backward t]\<rparr>)"
  by (simp add: backward_def VGG_backward_frozen)

lemma blocks_init:
  "blocks (VGGPerceptualLoss_init F feats rs) =
     [freeze_parameters (Module_eval (Sequential_getitem (Module_cuda F feats) 0 4)),
      freeze_parameters (Module_eval (Sequential_getitem (Module_cuda F feats) 4 9)),
      freeze_parameters (Module_eval (Sequential_getitem (Module_cuda F feats) 9 16)),
      freeze_parameters (Module_eval (Sequential_getitem (Module_cuda F feats) 16 23))]"
  by (simp add: VGGPerceptualLoss_init_def)

lemma frozen_block:
  "\<not> seq_training (freeze_parameters (Module_eval m)) \<and>
   (\<forall>l \<in> set (seq_layers (freeze_parameters (Module_eval m))). \<not> ltraining l) \<and>
   (\<forall>p \<in> set (parameters (freeze_parameters (Module_eval m))). \<not> requires_grad p)"
  by (auto simp: freeze_parameters_def Module_eval_def parameters_def)

lemma frozen_init: "frozen (VGGPerceptualLoss_init F feats rs)"
  unfolding frozen_def blocks_init by (simp add: frozen_block)

lemma forward_blocks_4:
  "forward_blocks F default_feature_layers default_style_layers 0 [b0, b1, b2, b3] x y (PyNum 0) =
     (let x1 = Sequential_call b0 x; y1 = Sequential_call b0 y;
          x2 = Sequential_call b1 x1; y2 = Sequential_call b1 y1;
          x3 = Sequential_call b2 x2; y3 = Sequential_call b2 y2;
          x4 = Sequential_call b3 x3; y4 = Sequential_call b3 y3
      in Inr (PyTensor (torch_add F (torch_add F (torch_add F
            (torch_add_scalar F (torch_l1_loss F x1 y1) 0)
            (torch_l1_loss F x2 y2)) (torch_l1_loss F x3 y3)) (torch_l1_loss F x4 y4))))"
  by (simp add: default_feature_layers_def default_style_layers_def Let_def)

lemma bind_vgg_loss_call:
  "bind (vgg_loss_call F i t) f w =
     (case forward F (vgg_loss (self w)) i t default_feature_layers default_style_layers of
        Inl e \<Rightarrow> (Inl e, w) | Inr v \<Rightarrow> f v w)"
  by (simp add: bind_def vgg_loss_call_def split: sum.splits)

lemma bind_backward_frozen:
  "frozen (vgg_loss (self w)) \<Longrightarrow>
   bind (backward F t) f w = f () (w\<lparr>trace := trace w @ [Backward t]\<rparr>)"
  by (simp add: bind_def backward_frozen)

lemma report_apply: "report name v w = (Inr (), w\<lparr>trace := trace w @ [Report name v]\<rparr>)"
  by (simp add: report_def)

lemma vgg_loss_call_apply:
  "vgg_loss_call F i t w =
     (forward F (vgg_loss (self w)) i t default_feature_layers default_style_layers, w)"
  by (simp add: vgg_loss_call_def)

lemma lift_result_apply: "lift_result r w = (r, w)"
  by (simp add: lift_result_def)

lemmas run_simps = bind_def return_apply raise_apply report_apply vgg_loss_call_apply
  lift_result_apply backward_frozen Let_def

lemma run_G_self: "run_G F P A c sync w = (r, w') \<Longrightarrow> self w' = self w"
  using run_G_frame [of F P A c sync w] by simp

lemma run_G_trace: "run_G F P A c sync w = (r, w') \<Longrightarrow> trace w' = trace w"
  using run_G_frame [of F P A c sync w] by simp

lemma run_D_self: "run_D img c sync w = (r, w') \<Longrightarrow> self w' = self w"
  using run_D_total [of img c sync w] by auto

lemma run_D_trace: "run_D img c sync w = (r, w') \<Longrightarrow> trace w' = trace w"
  using run_D_total [of img c sync w] by auto

lemma GPercep_body_eq:
  assumes g1: "run_G F pose_s ap_s gen_c sync w = (Inr (gs, ws1), w1)"
    and g2: "run_G F pose_t ap_s gen_c sync w1 = (Inr (gt, ws2), w2)"
    and fw: "forward F (vgg_loss (self w)) img_s gs default_feature_layers default_style_layers
               = Inr v"
    and fr: "frozen (vgg_loss (self w))"
  shows "GPercep_body F img_s img_t ap_s pose_s pose_t gen_c sync gain lv w =
     (Inr (lv\<lparr>loss_l1 := Some (torch_add F (torch_abs F (torch_l1_loss F img_s gs))
                                 (torch_abs F (torch_l1_loss F img_t gt))),
              loss_vgg := Some (py_add F v v)\<rparr>),
      w2\<lparr>trace := trace w @
         [Report ''Loss/G/L1_loss''
            (PyTensor (torch_add F (torch_abs F (torch_l1_loss F img_s gs))
                         (torch_abs F (torch_l1_loss F img_t gt)))),
          Report ''Loss/G/Perceptual'' (py_add F v v),
          Backward (torch_mul_scalar F (torch_mean F
            (tensor_add_py F (torch_add F (torch_abs F (torch_l1_loss F img_s gs))
                                (torch_abs F (torch_l1_loss F img_t gt))) (py_add F v v)))
            gain)]\<rparr>)"
proof -
  have s: "self w1 = self w" "self w2 = self w" "trace w2 = trace w"
    using run_G_self [OF g1] run_G_self [OF g2] run_G_trace [OF g1] run_G_trace [OF g2]
    by simp_all
  show ?thesis
    using fw fr s
    by (simp add: GPercep_body_def g1 g2 run_simps)
qed

lemma Gmain_body_eq:
  assumes g1: "run_G F pose_s ap_s gen_c sync w = (Inr (gs, ws1), w1)"
    and g2: "run_G F pose_t ap_s gen_c sync w1 = (Inr (gt, ws2), w2)"
    and d1: "run_D gs gen_c False w2 = (Inr ls, w3)"
    and d2: "run_D gt gen_c False w3 = (Inr lt, w4)"
    and fr: "frozen (vgg_loss (self w))"
  shows "Gmain_body F ap_s pose_s pose_t gen_c sync gain lv w =
     (Inr (lv\<lparr>loss_Gmain := Some (torch_softplus F (torch_neg F (torch_add F ls lt)))\<rparr>),
      w4\<lparr>trace := trace w @
         [Report ''Loss/scores/fake'' (PyTensor (torch_add F ls lt)),
          Report ''Loss/signs/fake'' (PyTensor (torch_sign F (torch_add F ls lt))),
          Report ''Loss/G/loss'' (PyTensor (torch_softplus F (torch_neg F (torch_add F ls lt)))),
          Backward (torch_mul_scalar F
            (torch_mean F (torch_softplus F (torch_neg F (torch_add F ls lt)))) gain)]\<rparr>)"
proof -
  have s: "self w4 = self w" "trace w4 = trace w"
    using run_G_self [OF g1] run_G_self [OF g2] run_G_trace [OF g1] run_G_trace [OF g2]
      run_D_self [OF d1] run_D_self [OF d2] run_D_trace [OF d1] run_D_trace [OF d2]
    by simp_all
  show ?thesis
    using fr s
    by (simp add: Gmain_body_def g1 g2 d1 d2 run_simps)
qed



lemma forward_init:
  assumes "1 < length (torch_shape F input)"
  shows "\<exists>v. forward F (VGGPerceptualLoss_init F feats rs) input target
            default_feature_layers default_style_layers = Inr (PyTensor v)"
  using assms
  by (simp add: forward_def shape_at_def blocks_init forward_blocks_4 Let_def
      del: forward_blocks.simps)


lemma locals_G:
  assumes mc: "mapping_contract (self w) num_ws" and nw: "0 < style_mixing_prob (self w) \<longrightarrow> 1 < num_ws"
    and vg: "vgg_loss (self w) = VGGPerceptualLoss_init F feats rs"
    and sh: "1 < length (torch_shape F img_s)"
  shows "\<exists>gs ws1 w1 gt ws2 w2 v ls lt w6.
     run_G F pose_s ap_s gen_c sync w = (Inr (gs, ws1), w1) \<and>
     run_G F pose_t ap_s gen_c sync w1 = (Inr (gt, ws2), w2) \<and>
     forward F (vgg_loss (self w)) img_s gs default_feature_layers default_style_layers
       = Inr (PyTensor v) \<and>
     accumulate_locals F True False False True img_s img_t ap_s ap_t pose_s pose_t real_c gen_c
       sync gain w =
      (Inr \<lparr>loss_l1 = Some (torch_add F (torch_abs F (torch_l1_loss F img_s gs))
                              (torch_abs F (torch_l1_loss F img_t gt))),
            loss_vgg = Some (PyTensor (torch_add F v v)),
            loss_Dgen = None,
            loss_Gmain = Some (torch_softplus F (torch_neg F (torch_add F ls lt))),
            loss_Dreal = None\<rparr>,
       w6\<lparr>trace := trace w @
         [Report ''Loss/G/L1_loss''
            (PyTensor (torch_add F (torch_abs F (torch_l1_loss F img_s gs))
                         (torch_abs F (torch_l1_loss F img_t gt)))),
          Report ''Loss/G/Perceptual'' (PyTensor (torch_add F v v)),
          Backward (torch_mul_scalar F (torch_mean F
            (torch_add F (torch_add F (torch_abs F (torch_l1_loss F img_s gs))
                                (torch_abs F (torch_l1_loss F img_t gt))) (torch_add F v v)))
            gain),
          Report ''Loss/scores/fake'' (PyTensor (torch_add F ls lt)),
          Report ''Loss/signs/fake'' (PyTensor (torch_sign F (torch_add F ls lt))),
          Report ''Loss/G/loss'' (PyTensor (torch_softplus F (torch_neg F (torch_add F ls lt)))),
          Backward (torch_mul_scalar F
            (torch_mean F (torch_softplus F (torch_neg F (torch_add F ls lt)))) gain)]\<rparr>) \<and>
     self w6 = self w"
proof -
  have fr: "frozen (vgg_loss (self w))" by (simp add: vg frozen_init)
  have t: "style_mixing_prob (self w) > 0 \<longrightarrow> 1 < num_ws" using nw by simp
  obtain gs ws1 w1 where g1: "run_G F pose_s ap_s gen_c sync w = (Inr (gs, ws1), w1)"
    and s1: "self w1 = self w"
    using run_G_total [OF mc t] by blast
  obtain gt ws2 w2 where g2: "run_G F pose_t ap_s gen_c sync w1 = (Inr (gt, ws2), w2)"
    and s2: "self w2 = self w"
    using run_G_total [of w1 num_ws] mc t s1 by metis
  obtain v where fw: "forward F (vgg_loss (self w)) img_s gs default_feature_layers
      default_style_layers = Inr (PyTensor v)"
    using forward_init [OF sh] vg by metis
  define l1 where "l1 = torch_add F (torch_abs F (torch_l1_loss F img_s gs))
                              (torch_abs F (torch_l1_loss F img_t gt))"
  define e1 where "e1 = [Report ''Loss/G/L1_loss'' (PyTensor l1),
          Report ''Loss/G/Perceptual'' (PyTensor (torch_add F v v)),
          Backward (torch_mul_scalar F (torch_mean F (torch_add F l1 (torch_add F v v))) gain)]"
  define w2' where "w2' = w2\<lparr>trace := trace w @ e1\<rparr>"
  have p: "GPercep_body F img_s img_t ap_s pose_s pose_t gen_c sync gain lv0 w =
      (Inr (lv0\<lparr>loss_l1 := Some l1, loss_vgg := Some (PyTensor (torch_add F v v))\<rparr>), w2')"
    using GPercep_body_eq [OF g1 g2 fw fr, of img_t gain lv0]
    by (simp add: l1_def e1_def w2'_def tensor_add_py_def)
  have s2': "self w2' = self w" by (simp add: w2'_def s2)
  have fr2: "frozen (vgg_loss (self w2'))" by (simp add: s2' fr)
  obtain gs' ws3 w3 where g3: "run_G F pose_s ap_s gen_c sync w2' = (Inr (gs', ws3), w3)"
    and s3: "self w3 = self w"
    using run_G_total [of w2' num_ws] mc t s2' by metis
  obtain gt' ws4 w4 where g4: "run_G F pose_t ap_s gen_c sync w3 = (Inr (gt', ws4), w4)"
    and s4: "self w4 = self w"
    using run_G_total [of w3 num_ws] mc t s3 by metis
  obtain ls w5 where d1: "run_D gs' gen_c False w4 = (Inr ls, w5)" and s5: "self w5 = self w"
    using run_D_total [of gs' gen_c False w4] s4 by metis
  obtain lt w6 where d2: "run_D gt' gen_c False w5 = (Inr lt, w6)" and s6: "self w6 = self w"
    using run_D_total [of gt' gen_c False w5] s5 by metis
  have q: "Gmain_body F ap_s pose_s pose_t gen_c sync gain lv w2' =
     (Inr (lv\<lparr>loss_Gmain := Some (torch_softplus F (torch_neg F (torch_add F ls lt)))\<rparr>),
      w6\<lparr>trace := trace w2' @
         [Report ''Loss/scores/fake'' (PyTensor (torch_add F ls lt)),
          Report ''Loss/signs/fake'' (PyTensor (torch_sign F (torch_add F ls lt))),
          Report ''Loss/G/loss'' (PyTensor (torch_softplus F (torch_neg F (torch_add F ls lt)))),
          Backward (torch_mul_scalar F
            (torch_mean F (torch_softplus F (torch_neg F (torch_add F ls lt)))) gain)]\<rparr>)"
    for lv
    by (rule Gmain_body_eq [OF g3 g4 d1 d2 fr2])
  have "accumulate_locals F True False False True img_s img_t ap_s ap_t pose_s pose_t real_c
       gen_c sync gain w =
      (Inr (lv0\<lparr>loss_l1 := Some l1, loss_vgg := Some (PyTensor (torch_add F v v)),
                loss_Gmain := Some (torch_softplus F (torch_neg F (torch_add F ls lt)))\<rparr>),
       w6\<lparr>trace := trace w2' @
         [Report ''Loss/scores/fake'' (PyTensor (torch_add F ls lt)),
          Report ''Loss/signs/fake'' (PyTensor (torch_sign F (torch_add F ls lt))),
          Report ''Loss/G/loss'' (PyTensor (torch_softplus F (torch_neg F (torch_add F ls lt)))),
          Backward (torch_mul_scalar F
            (torch_mean F (torch_softplus F (torch_neg F (torch_add F ls lt)))) gain)]\<rparr>)"
    using p q by (simp add: accumulate_locals_def bind_def return_apply lv0_def [symmetric])
  then show ?thesis
    using g1 g2 fw s6
    by (simp add: lv0_def w2'_def e1_def l1_def) blast
qed



lemma preserves_bind:
  fixes m :: "('a, 't, 's) M" and f :: "'a \<Rightarrow> ('b, 't, 's) M"
  assumes "preserves_self m" "\<And>a. preserves_self (f a)"
  shows "preserves_self (bind m f)"
  unfolding preserves_self_def
proof (intro allI impI)
  fix w :: "('t, 's) world"
  assume fr: "frozen (vgg_loss (self w))"
  obtain r w1 where mw: "m w = (r, w1)" by (cases "m w")
  have s1: "self w1 = self w" using assms(1) fr mw by (auto simp: preserves_self_def)
  show "self (snd (bind m f w)) = self w"
  proof (cases r)
    case (Inl e)
    then show ?thesis using mw s1 by (simp add: bind_def)
  next
    case (Inr a)
    have "self (snd (f a w1)) = self w1"
      using assms(2) [of a] fr s1 by (simp add: preserves_self_def)
    then show ?thesis using mw s1 Inr by (simp add: bind_def)
  qed
qed

lemma preserves_prims:
  "preserves_self (return a)" "preserves_self (raise e)" "preserves_self get_self"
  "preserves_self (ext_call g)" "preserves_self (lift_result r)"
  "preserves_self (report name v)" "preserves_self (backward F t)"
  "preserves_self (vgg_loss_call F i j)"
  by (simp_all add: preserves_self_def return_def raise_def get_self_def ext_call_def
      lift_result_def report_def backward_frozen vgg_loss_call_def)

lemma preserves_if:
  "preserves_self m \<Longrightarrow> preserves_self n \<Longrightarrow> preserves_self (if b then m else n)"
  by simp

lemma preserves_case_prod:
  "(\<And>a b. preserves_self (f a b)) \<Longrightarrow> preserves_self (case p of (a, b) \<Rightarrow> f a b)"
  by (cases p) simp

lemma preserves_case_option:
  "preserves_self m \<Longrightarrow> (\<And>a. preserves_self (f a)) \<Longrightarrow>
   preserves_self (case x of None \<Rightarrow> m | Some a \<Rightarrow> f a)"
  by (cases x) simp_all

lemmas preserves_intros = preserves_bind preserves_prims preserves_if preserves_case_prod
  preserves_case_option

lemma preserves_run_G: "preserves_self (run_G F P A c sync)"
  unfolding run_G_def Let_def by (intro preserves_intros)

lemma preserves_run_D: "preserves_self (run_D img c sync)"
  unfolding run_D_def by (intro preserves_intros)

lemma preserves_GPercep:
  "preserves_self (GPercep_body F img_s img_t ap_s pose_s pose_t gen_c sync gain lv)"
  unfolding GPercep_body_def Let_def by (intro preserves_intros preserves_run_G)

lemma preserves_Gmain: "preserves_self (Gmain_body F ap_s pose_s pose_t gen_c sync gain lv)"
  unfolding Gmain_body_def Let_def by (intro preserves_intros preserves_run_G preserves_run_D)

lemma preserves_Dgen: "preserves_self (Dgen_body F ap_s pose_s gen_c gain lv)"
  unfolding Dgen_body_def Let_def by (intro preserves_intros preserves_run_G preserves_run_D)

lemma preserves_Dr1: "preserves_self (Dr1_body F do_Dr1 rl t s)"
  unfolding Dr1_body_def Let_def by (intro preserves_intros)

lemma preserves_Dreal:
  "preserves_self (Dreal_Dr1_body F do_Dmain do_Dr1 img_s img_t real_c sync gain lv)"
  unfolding Dreal_Dr1_body_def Let_def
  by (intro preserves_intros preserves_run_D preserves_Dr1)

lemma preserves_locals:
  "preserves_self (accumulate_locals F g dm dr gp img_s img_t ap_s ap_t pose_s pose_t real_c
     gen_c sync gain)"
  unfolding accumulate_locals_def Let_def
  by (intro preserves_intros preserves_GPercep preserves_Gmain preserves_Dgen preserves_Dreal)

lemma preserves_finish: "preserves_self (finish F lv)"
  unfolding finish_def Let_def by (intro preserves_intros)

lemma preserves_accumulate_gradients:
  "preserves_self (accumulate_gradients F phase img_s img_t ap_s ap_t pose_s pose_t real_c gen_c
     sync gain)"
  unfolding accumulate_gradients_def Let_def
  by (intro preserves_intros preserves_locals preserves_finish)




























lemma ignores_bind:
  fixes m :: "('a, 't, 's) M" and f :: "'a \<Rightarrow> ('b, 't, 's) M"
  assumes "ignores_unused m" "\<And>a. ignores_unused (f a)"
  shows "ignores_unused (bind m f)"
  unfolding ignores_unused_def
proof (intro allI)
  fix w :: "('t, 's) world" and l1w plbs pld plw :: real
  obtain r w1 where mw: "m w = (r, w1)" by (cases "m w")
  have mw': "m (set_unused w l1w plbs pld plw) = (r, set_unused w1 l1w plbs pld plw)"
    using assms(1) mw by (simp add: ignores_unused_def)
  show "bind m f (set_unused w l1w plbs pld plw) =
        (fst (bind m f w), set_unused (snd (bind m f w)) l1w plbs pld plw)"
  proof (cases r)
    case (Inl e)
    then show ?thesis using mw mw' by (simp add: bind_def)
  next
    case (Inr a)
    have "f a (set_unused w1 l1w plbs pld plw) =
          (fst (f a w1), set_unused (snd (f a w1)) l1w plbs pld plw)"
      using assms(2) [of a] by (simp add: ignores_unused_def)
    then show ?thesis using mw mw' Inr by (simp add: bind_def)
  qed
qed

lemma ignores_get_self:
  fixes f :: "('t, 's) StyleGAN2Loss \<Rightarrow> ('b, 't, 's) M"
  assumes "\<And>L. ignores_unused (f L)"
    and "\<And>L l1w plbs pld plw. f (with_unused L l1w plbs pld plw) = f L"
  shows "ignores_unused (bind get_self f)"
  using assms by (simp add: ignores_unused_def bind_get_self set_unused_def)

lemma ignores_prims:
  "ignores_unused (return a)" "ignores_unused (raise e)"
  "ignores_unused (ext_call g)" "ignores_unused (lift_result r)"
  "ignores_unused (report name v)" "ignores_unused (backward F t)"
  "ignores_unused (vgg_loss_call F i j)"
  by (simp_all add: ignores_unused_def return_def raise_def ext_call_def
      lift_result_def report_def backward_def vgg_loss_call_def set_unused_def with_unused_def)

lemma ignores_if:
  "ignores_unused m \<Longrightarrow> ignores_unused n \<Longrightarrow> ignores_unused (if b then m else n)"
  by simp

lemma ignores_case_prod:
  "(\<And>a b. ignores_unused (f a b)) \<Longrightarrow> ignores_unused (case p of (a, b) \<Rightarrow> f a b)"
  by (cases p) simp

lemma ignores_case_option:
  "ignores_unused m \<Longrightarrow> (\<And>a. ignores_unused (f a)) \<Longrightarrow>
   ignores_unused (case x of None \<Rightarrow> m | Some a \<Rightarrow> f a)"
  by (cases x) simp_all

lemmas ignores_intros = ignores_bind ignores_prims ignores_if ignores_case_prod
  ignores_case_option

lemma ignores_run_G: "ignores_unused (run_G F P A c sync)"
  unfolding run_G_def Let_def
  by (rule ignores_get_self) (intro ignores_intros, simp add: with_unused_def cong: if_cong)

lemma ignores_run_D: "ignores_unused (run_D img c sync)"
  unfolding run_D_def
  by (rule ignores_get_self) (intro ignores_intros, simp add: with_unused_def cong: if_cong)

lemma ignores_GPercep:
  "ignores_unused (GPercep_body F img_s img_t ap_s pose_s pose_t gen_c sync gain lv)"
  unfolding GPercep_body_def Let_def by (intro ignores_intros ignores_run_G)

lemma ignores_Gmain: "ignores_unused (Gmain_body F ap_s pose_s pose_t gen_c sync gain lv)"
  unfolding Gmain_body_def Let_def by (intro ignores_intros ignores_run_G ignores_run_D)

lemma ignores_Dgen: "ignores_unused (Dgen_body F ap_s pose_s gen_c gain lv)"
  unfolding Dgen_body_def Let_def by (intro ignores_intros ignores_run_G ignores_run_D)

lemma ignores_Dr1: "ignores_unused (Dr1_body F do_Dr1 rl t s)"
  unfolding Dr1_body_def Let_def
  by (rule ignores_if, rule ignores_get_self) (intro ignores_intros, simp_all add: with_unused_def ignores_prims cong: if_cong)

lemma ignores_Dreal:
  "ignores_unused (Dreal_Dr1_body F do_Dmain do_Dr1 img_s img_t real_c sync gain lv)"
  unfolding Dreal_Dr1_body_def Let_def
  by (intro ignores_intros ignores_run_D ignores_Dr1)

lemma ignores_locals:
  "ignores_unused (accumulate_locals F g dm dr gp img_s img_t ap_s ap_t pose_s pose_t real_c
     gen_c sync gain)"
  unfolding accumulate_locals_def Let_def
  by (intro ignores_intros ignores_GPercep ignores_Gmain ignores_Dgen ignores_Dreal)

lemma ignores_finish: "ignores_unused (finish F lv)"
  unfolding finish_def Let_def by (intro ignores_intros)

lemma ignores_accumulate_gradients:
  "ignores_unused (accumulate_gradients F phase img_s img_t ap_s ap_t pose_s pose_t real_c gen_c
     sync gain)"
  unfolding accumulate_gradients_def Let_def
  by (rule ignores_if, rule ignores_prims, rule ignores_get_self)
     (intro ignores_intros ignores_locals ignores_finish, simp add: with_unused_def cong: if_cong)

lemma accumulate_gradients_eq:
  assumes "phase \<in> set phases"
    and "accumulate_locals F (phase \<in> set [''Gmain'', ''Gboth''])
           (phase \<in> set [''Dmain'', ''Dboth''])
           (phase \<in> set [''Dreg'', ''Dboth''] \<and> r1_gamma (self w) \<noteq> 0)
           (phase \<in> set [''Gmain'', ''Gboth''])
           img_s img_t ap_s ap_t pose_s pose_t real_c gen_c sync gain w = (Inr lv, w')"
  shows "accumulate_gradients F phase img_s img_t ap_s ap_t pose_s pose_t real_c gen_c sync gain w
         = finish F lv w'"
  using assms by (simp add: accumulate_gradients_def bind_get_self Let_def bind_Inr)

lemma finish_eq:
  assumes "loss_vgg lv = None \<or> (\<exists>b. loss_vgg lv = Some (PyTensor b))"
  shows "finish F lv w =
     (Inr (torch_mean F (case loss_l1 lv of None \<Rightarrow> zero_loss F | Some t \<Rightarrow> t),
           torch_mean F (case loss_vgg lv of Some (PyTensor b) \<Rightarrow> b | _ \<Rightarrow> zero_loss F),
           torch_mean F (case loss_Dreal lv of None \<Rightarrow> zero_loss F | Some t \<Rightarrow> t),
           torch_mean F (case loss_Gmain lv of None \<Rightarrow> zero_loss F | Some t \<Rightarrow> t),
           torch_mean F (case loss_Dgen lv of None \<Rightarrow> zero_loss F | Some t \<Rightarrow> t)), w)"
  using assms by (auto simp: finish_def Let_def mean_py_def bind_lift_Inr return_apply)


lemma init_fields:
  "vgg_loss (StyleGAN2Loss_init F feats dev Gm Gs An Dn aug smp r1 plbs pld plw l1w)
     = VGGPerceptualLoss_init F feats True"
  "G_mapping (StyleGAN2Loss_init F feats dev Gm Gs An Dn aug smp r1 plbs pld plw l1w) = Gm"
  "r1_gamma (StyleGAN2Loss_init F feats dev Gm Gs An Dn aug smp r1 plbs pld plw l1w) = r1"
  "style_mixing_prob (StyleGAN2Loss_init F feats dev Gm Gs An Dn aug smp r1 plbs pld plw l1w)
     = smp"
  by (simp_all add: StyleGAN2Loss_init_def)



lemma unused_fields_ignored:
  fixes F :: "('t, 's) torch" and w :: "('t, 's) world"
  assumes "self w' = (self w)\<lparr>l1_weight := l1w, pl_batch_shrink := plbs, pl_decay := pld,
                              pl_weight := plw\<rparr>"
    and "ext w' = ext w" and "trace w' = trace w"
  shows "fst (run_G F P A c sync w') = fst (run_G F P A c sync w) \<and>
     ext (snd (run_G F P A c sync w')) = ext (snd (run_G F P A c sync w)) \<and>
     trace (snd (run_G F P A c sync w')) = trace (snd (run_G F P A c sync w)) \<and>
     fst (run_D img c sync w') = fst (run_D img c sync w) \<and>
     ext (snd (run_D img c sync w')) = ext (snd (run_D img c sync w)) \<and>
     trace (snd (run_D img c sync w')) = trace (snd (run_D img c sync w)) \<and>
     fst (accumulate_gradients F phase img_s img_t ap_s ap_t pose_s pose_t real_c gen_c sync
            gain w')
       = fst (accumulate_gradients F phase img_s img_t ap_s ap_t pose_s pose_t real_c gen_c
                sync gain w) \<and>
     ext (snd (accumulate_gradients F phase img_s img_t ap_s ap_t pose_s pose_t real_c gen_c
                 sync gain w'))
       = ext (snd (accumulate_gradients F phase img_s img_t ap_s ap_t pose_s pose_t real_c
                     gen_c sync gain w)) \<and>
     trace (snd (accumulate_gradients F phase img_s img_t ap_s ap_t pose_s pose_t real_c gen_c
                   sync gain w'))
       = trace (snd (accumulate_gradients F phase img_s img_t ap_s ap_t pose_s pose_t real_c
                       gen_c sync gain w)) \<and>
     vgg_loss (self (snd (accumulate_gradients F phase img_s img_t ap_s ap_t pose_s pose_t
                            real_c gen_c sync gain w')))
       = vgg_loss (self (snd (accumulate_gradients F phase img_s img_t ap_s ap_t pose_s pose_t
                                real_c gen_c sync gain w)))"
proof -
  have w': "w' = set_unused w l1w plbs pld plw"
    using assms by (simp add: set_unused_def with_unused_def)
  have a: "m w' = (fst (m w), set_unused (snd (m w)) l1w plbs pld plw)"
    if "ignores_unused m" for m :: "('a, 't, 's) M"
    using that by (simp add: ignores_unused_def w')
  show ?thesis
    by (simp add: a [OF ignores_run_G] a [OF ignores_run_D] a [OF ignores_accumulate_gradients]
        set_unused_def with_unused_def)
qed

section \<open>The claims\<close>

subsection \<open>C1\<close>



subsection \<open>C2\<close>



subsection \<open>C3\<close>



subsection \<open>C4\<close>

text \<open>
  Claim C4. For an input with at least two dimensions and three channels,
  \<^verbatim>\<open>VGGPerceptualLoss.forward\<close> with the default arguments returns
  \<open>0.0 + l1 + l2 + l3 + l4\<close>, where \<open>l\<^sub>i\<close> is the L1 loss between the activations of the
  \<open>i\<close>-th block on the input and on the target, each normalised with the mean and the
  standard deviation buffers and, when \<^verbatim>\<open>resize\<close> is set, interpolated to 224 by 224; the
  activations of a block are computed from those of the block before. No Gram-matrix term
  occurs in the result.
\<close>

theorem C4_perceptual_loss_default:
  assumes "1 < length (torch_shape F input)" "torch_shape F input ! 1 = 3"
  shows "forward F (VGGPerceptualLoss_init F vgg16_features rs) input target
           default_feature_layers default_style_layers =
     (let V = VGGPerceptualLoss_init F vgg16_features rs;
          x0 = (if rs
                then torch_interpolate F (torch_div F (torch_sub F input (mean V)) (std V))
                       ''bilinear'' (224, 224) False
                else torch_div F (torch_sub F input (mean V)) (std V));
          y0 = (if rs
                then torch_interpolate F (torch_div F (torch_sub F target (mean V)) (std V))
                       ''bilinear'' (224, 224) False
                else torch_div F (torch_sub F target (mean V)) (std V));
          x1 = Sequential_call (blocks V ! 0) x0; y1 = Sequential_call (blocks V ! 0) y0;
          x2 = Sequential_call (blocks V ! 1) x1; y2 = Sequential_call (blocks V ! 1) y1;
          x3 = Sequential_call (blocks V ! 2) x2; y3 = Sequential_call (blocks V ! 2) y2;
          x4 = Sequential_call (blocks V ! 3) x3; y4 = Sequential_call (blocks V ! 3) y3
      in Inr (PyTensor
           (torch_add F
              (torch_add F
                 (torch_add F
                    (torch_add_scalar F (torch_l1_loss F x1 y1) 0)
                    (torch_l1_loss F x2 y2))
                 (torch_l1_loss F x3 y3))
              (torch_l1_loss F x4 y4))))"
proof -
  have r: "resize (VGGPerceptualLoss_init F vgg16_features rs) = rs"
    by (simp add: VGGPerceptualLoss_init_def)
  show ?thesis
    using assms
    by (simp add: forward_def shape_at_def blocks_init forward_blocks_4 r Let_def
        del: forward_blocks.simps)
qed

text \<open>The theorem on the small instance.\<close>

theorem C4_witness:
  "1 < length (torch_shape toy_torch 1) \<and> torch_shape toy_torch 1 ! 1 = 3 \<and>
   forward toy_torch (VGGPerceptualLoss_init toy_torch toy_features True) 1 2
     default_feature_layers default_style_layers = Inr (PyTensor (2000 / 339))"
proof -
  have h1: "1 < length (torch_shape toy_torch 1)" by (simp add: toy_torch_def)
  have h2: "torch_shape toy_torch 1 ! 1 = 3" by (simp add: toy_torch_def)
  have e: "forward toy_torch (VGGPerceptualLoss_init toy_torch toy_features True) 1 2
     default_feature_layers default_style_layers = Inr (PyTensor (2000 / 339))"
    by (subst C4_perceptual_loss_default [OF h1 h2]) code_simp
  show ?thesis using h1 h2 e by blast
qed

subsection \<open>C5\<close>

text \<open>
  Claim C5. In the phases Gmain and Gboth, let \<open>gen_img_s\<close> be the image that the first call
  of \<^verbatim>\<open>run_G\<close> generates for the source pose, and \<open>v\<close> the perceptual loss between
  \<open>img_s\<close> and \<open>gen_img_s\<close>. Then, whatever the target image, the target appearance and the
  target pose are, the second value returned is the mean of \<open>v + v\<close>, the statistic
  \<^verbatim>\<open>Loss/G/Perceptual\<close> is reported once with the value \<open>v + v\<close>, and \<open>.backward()\<close> is
  called on \<open>(loss_l1 + (v + v)).mean().mul(gain)\<close>. The assumptions on the object, the
  mapping network and the source image are those of C1.
\<close>

theorem C5_perceptual_loss_source_only:
  fixes F :: "('t, 's) torch" and w :: "('t, 's) world"
  assumes ph: "phase \<in> {''Gmain'', ''Gboth''}"
    and inst: "self w = StyleGAN2Loss_init F feats dev Gm Gs An Dn aug smp r1 plbs pld plw l1w"
    and nws: "0 < smp \<longrightarrow> 1 < num_ws"
      "\<And>sync z c skip s. length (fst (Gm sync z c skip s)) = num_ws"
    and shp: "1 < length (torch_shape F img_s)"
  shows "\<exists>gen_img_s ws w1 v.
     run_G F pose_s ap_s gen_c sync w = (Inr (gen_img_s, ws), w1) \<and>
     forward F (vgg_loss (self w)) img_s gen_img_s default_feature_layers default_style_layers
       = Inr (PyTensor v) \<and>
     (\<forall>img_t ap_t pose_t.
        \<exists>l1 dreal gmain dgen w' evs loss_l1.
          accumulate_gradients F phase img_s img_t ap_s ap_t pose_s pose_t real_c gen_c sync
            gain w
            = (Inr (l1, torch_mean F (torch_add F v v), dreal, gmain, dgen), w') \<and>
          trace w' = trace w @ evs \<and>
          reported ''Loss/G/Perceptual'' evs = [PyTensor (torch_add F v v)] \<and>
          Backward (torch_mul_scalar F
                      (torch_mean F (torch_add F loss_l1 (torch_add F v v))) gain) \<in> set evs)"
proof -
  have mc: "mapping_contract (self w) num_ws"
    by (simp add: mapping_contract_def inst init_fields nws)
  have vg: "vgg_loss (self w) = VGGPerceptualLoss_init F feats True"
    by (simp add: inst init_fields)
  have nw: "0 < style_mixing_prob (self w) \<longrightarrow> 1 < num_ws"
    using nws(1) by (simp add: inst init_fields)
  have t: "style_mixing_prob (self w) > 0 \<longrightarrow> 1 < num_ws" using nw by simp
  have pv: "phase \<in> set phases" using ph by (auto simp: phases_def)
  have flags: "(phase \<in> set [''Gmain'', ''Gboth'']) = True"
    "(phase \<in> set [''Dmain'', ''Dboth'']) = False"
    "(phase \<in> set [''Dreg'', ''Dboth''] \<and> r1_gamma (self w) \<noteq> 0) = False"
    using ph by auto
  obtain gs ws1 w1 where g1: "run_G F pose_s ap_s gen_c sync w = (Inr (gs, ws1), w1)"
    using run_G_total [OF mc t] by blast
  obtain v where fw: "forward F (vgg_loss (self w)) img_s gs default_feature_layers
      default_style_layers = Inr (PyTensor v)"
    using forward_init [OF shp] vg by metis
  have main: "\<exists>l1 dreal gmain dgen w' evs loss_l1.
          accumulate_gradients F phase img_s img_t ap_s ap_t pose_s pose_t real_c gen_c sync
            gain w
            = (Inr (l1, torch_mean F (torch_add F v v), dreal, gmain, dgen), w') \<and>
          trace w' = trace w @ evs \<and>
          reported ''Loss/G/Perceptual'' evs = [PyTensor (torch_add F v v)] \<and>
          Backward (torch_mul_scalar F
                      (torch_mean F (torch_add F loss_l1 (torch_add F v v))) gain) \<in> set evs"
    for img_t ap_t pose_t
  proof -
    from locals_G [OF mc nw vg shp, of pose_s ap_s gen_c sync pose_t img_t ap_t real_c gain]
    obtain gs' ws1' w1' gt ws2 w2 v' ls lt w6 lv evs where
      g1': "run_G F pose_s ap_s gen_c sync w = (Inr (gs', ws1'), w1')"
      and fw': "forward F (vgg_loss (self w)) img_s gs' default_feature_layers
          default_style_layers = Inr (PyTensor v')"
      and lv: "lv = \<lparr>loss_l1 = Some (torch_add F (torch_abs F (torch_l1_loss F img_s gs'))
                              (torch_abs F (torch_l1_loss F img_t gt))),
            loss_vgg = Some (PyTensor (torch_add F v' v')),
            loss_Dgen = None,
            loss_Gmain = Some (torch_softplus F (torch_neg F (torch_add F ls lt))),
            loss_Dreal = None\<rparr>"
      and evs: "evs =
         [Report ''Loss/G/L1_loss''
            (PyTensor (torch_add F (torch_abs F (torch_l1_loss F img_s gs'))
                         (torch_abs F (torch_l1_loss F img_t gt)))),
          Report ''Loss/G/Perceptual'' (PyTensor (torch_add F v' v')),
          Backward (torch_mul_scalar F (torch_mean F
            (torch_add F (torch_add F (torch_abs F (torch_l1_loss F img_s gs'))
                                (torch_abs F (torch_l1_loss F img_t gt))) (torch_add F v' v')))
            gain),
          Report ''Loss/scores/fake'' (PyTensor (torch_add F ls lt)),
          Report ''Loss/signs/fake'' (PyTensor (torch_sign F (torch_add F ls lt))),
          Report ''Loss/G/loss'' (PyTensor (torch_softplus F (torch_neg F (torch_add F ls lt)))),
          Backward (torch_mul_scalar F
            (torch_mean F (torch_softplus F (torch_neg F (torch_add F ls lt)))) gain)]"
      and loc: "accumulate_locals F True False False True img_s img_t ap_s ap_t pose_s pose_t
          real_c gen_c sync gain w = (Inr lv, w6\<lparr>trace := trace w @ evs\<rparr>)"
      by blast
    have same: "gs' = gs" "v' = v" using g1 g1' fw fw' by simp_all
    have "accumulate_gradients F phase img_s img_t ap_s ap_t pose_s pose_t real_c gen_c sync
            gain w = finish F lv (w6\<lparr>trace := trace w @ evs\<rparr>)"
      using loc by (intro accumulate_gradients_eq [OF pv]) (simp only: flags)
    then have res: "accumulate_gradients F phase img_s img_t ap_s ap_t pose_s pose_t real_c
            gen_c sync gain w =
        (Inr (torch_mean F (torch_add F (torch_abs F (torch_l1_loss F img_s gs))
                              (torch_abs F (torch_l1_loss F img_t gt))),
              torch_mean F (torch_add F v v),
              torch_mean F (zero_loss F),
              torch_mean F (torch_softplus F (torch_neg F (torch_add F ls lt))),
              torch_mean F (zero_loss F)),
         w6\<lparr>trace := trace w @ evs\<rparr>)"
      by (simp add: finish_eq lv same)
    show ?thesis
      apply (intro exI conjI)
         apply (rule res)
        apply simp
       apply (simp add: evs same)
      apply (simp add: evs same)
      apply (rule disjI1)
      apply (rule refl)
      done
  qed
  show ?thesis
    apply (rule exI [of _ gs], rule exI [of _ ws1], rule exI [of _ w1], rule exI [of _ v])
    using g1 fw main apply blast
    done
qed

text \<open>The theorem on the small instance, in the phase Gmain: the perceptual loss of the
  source pair is 14000/113, and the value returned is twice that for every target.\<close>

theorem C5_witness:
  "''Gmain'' \<in> {''Gmain'', ''Gboth''} \<and>
   self toy_world =
     StyleGAN2Loss_init toy_torch toy_features ''cuda'' toy_G_mapping toy_G_synthesis toy_ANet
       toy_D None 0.9 10 2 0.01 2 50 \<and>
   (0 :: real) < 0.9 \<and> (1 :: nat) < 2 \<and>
   (\<forall>sync z c skip s. length (fst (toy_G_mapping sync z c skip s)) = 2) \<and>
   1 < length (torch_shape toy_torch 1) \<and>
   (\<exists>v. forward toy_torch (vgg_loss (self toy_world)) 1
           (fst (projr (fst (run_G toy_torch 5 3 8 True toy_world))))
           default_feature_layers default_style_layers = Inr (PyTensor v) \<and>
        (\<forall>img_t ap_t pose_t.
           fst (snd (projr (fst (accumulate_gradients toy_torch ''Gmain'' 1 img_t 3 ap_t 5
                                   pose_t 7 8 True 1 toy_world)))) = v + v)) \<and>
   forward toy_torch (vgg_loss (self toy_world)) 1
     (fst (projr (fst (run_G toy_torch 5 3 8 True toy_world))))
     default_feature_layers default_style_layers = Inr (PyTensor (14000 / 113))"
proof -
  have h1: "''Gmain'' \<in> {''Gmain'', ''Gboth''}" by simp
  have h2: "self toy_world =
     StyleGAN2Loss_init toy_torch toy_features ''cuda'' toy_G_mapping toy_G_synthesis toy_ANet
       toy_D None 0.9 10 2 0.01 2 50"
    by (simp add: toy_world_def toy_loss_def)
  have h3': "(0 :: real) < 0.9 \<and> (1 :: nat) < 2" by simp
  have h3: "(0 :: real) < 0.9 \<longrightarrow> (1 :: nat) < 2" by simp
  have h4: "length (fst (toy_G_mapping sync z c skip s)) = 2" for sync z c skip s
    by (simp add: toy_G_mapping_def)
  have h5: "1 < length (torch_shape toy_torch 1)" by (simp add: toy_torch_def)
  have m: "torch_mean toy_torch a = a" "torch_add toy_torch a b = a + b" for a b
    by (simp_all add: toy_torch_def)
  from C5_perceptual_loss_source_only [OF h1 h2 h3 h4 h5, of 5 3 8 True 7 1]
  obtain gs ws w1 v where
    g: "run_G toy_torch 5 3 8 True toy_world = (Inr (gs, ws), w1)"
    and f: "forward toy_torch (vgg_loss (self toy_world)) 1 gs default_feature_layers
              default_style_layers = Inr (PyTensor v)"
    and a0: "\<forall>img_t ap_t pose_t. \<exists>l1 dreal gmain dgen w' evs loss_l1.
          accumulate_gradients toy_torch ''Gmain'' 1 img_t 3 ap_t 5 pose_t 7 8 True 1 toy_world
            = (Inr (l1, torch_mean toy_torch (torch_add toy_torch v v), dreal, gmain, dgen), w')
          \<and> trace w' = trace toy_world @ evs
          \<and> reported ''Loss/G/Perceptual'' evs = [PyTensor (torch_add toy_torch v v)]
          \<and> Backward (torch_mul_scalar toy_torch
                (torch_mean toy_torch (torch_add toy_torch loss_l1 (torch_add toy_torch v v)))
                1) \<in> set evs"
    by blast
  have a: "\<exists>l1 dreal gmain dgen w'.
          accumulate_gradients toy_torch ''Gmain'' 1 img_t 3 ap_t 5 pose_t 7 8 True 1 toy_world
            = (Inr (l1, torch_mean toy_torch (torch_add toy_torch v v), dreal, gmain, dgen), w')"
    for img_t ap_t pose_t
    using a0 [rule_format, of img_t ap_t pose_t] by blast
  have gs: "fst (projr (fst (run_G toy_torch 5 3 8 True toy_world))) = gs"
    by (simp add: g)
  have a': "fst (snd (projr (fst (accumulate_gradients toy_torch ''Gmain'' 1 img_t 3 ap_t 5
                                   pose_t 7 8 True 1 toy_world)))) = v + v"
    for img_t ap_t pose_t
    using a [of img_t ap_t pose_t] by (auto simp: m)
  have e: "\<exists>v. forward toy_torch (vgg_loss (self toy_world)) 1
           (fst (projr (fst (run_G toy_torch 5 3 8 True toy_world))))
           default_feature_layers default_style_layers = Inr (PyTensor v) \<and>
        (\<forall>img_t ap_t pose_t.
           fst (snd (projr (fst (accumulate_gradients toy_torch ''Gmain'' 1 img_t 3 ap_t 5
                                   pose_t 7 8 True 1 toy_world)))) = v + v)"
    using f a' by (simp only: gs) blast
  have c: "forward toy_torch (vgg_loss (self toy_world)) 1
     (fst (projr (fst (run_G toy_torch 5 3 8 True toy_world))))
     default_feature_layers default_style_layers = Inr (PyTensor (14000 / 113))"
    by code_simp
  show ?thesis using h1 h2 h3' h4 h5 e c by blast
qed

subsection \<open>C6\<close>

text \<open>
  Claim C6. After \<^verbatim>\<open>VGGPerceptualLoss.__init__\<close> the module has four blocks; every block and
  every layer of a block is in eval mode, and no parameter of a block requires a gradient.
  From a world whose object holds such a module, a call of the module, of \<^verbatim>\<open>run_G\<close>, of
  \<^verbatim>\<open>run_D\<close> or of \<^verbatim>\<open>accumulate_gradients\<close> (in any phase, with any arguments, whether it
  returns or raises) leaves the object as it was: the data, the \<^verbatim>\<open>requires_grad\<close> flag and
  the accumulated gradient of every parameter, and the mode of every block. The state after
  a call is again such a world, so the same holds after any number of calls.
\<close>

theorem C6_vgg_frozen:
  fixes F :: "('t, 's) torch"
  shows "length (blocks (VGGPerceptualLoss_init F vgg16_features rs)) = 4 \<and>
   (\<forall>bl \<in> set (blocks (VGGPerceptualLoss_init F vgg16_features rs)).
      \<not> seq_training bl \<and>
      (\<forall>l \<in> set (seq_layers bl). \<not> ltraining l) \<and>
      (\<forall>p \<in> set (parameters bl). \<not> requires_grad p)) \<and>
   (\<forall>w :: ('t, 's) world.
      vgg_loss (self w) = VGGPerceptualLoss_init F vgg16_features rs \<longrightarrow>
        snd (vgg_loss_call F input target w) = w \<and>
        self (snd (run_G F P A c sync w)) = self w \<and>
        self (snd (run_D img c sync w)) = self w \<and>
        self (snd (accumulate_gradients F phase img_s img_t ap_s ap_t pose_s pose_t real_c
                     gen_c sync gain w)) = self w)"
proof (intro conjI allI impI)
  show "length (blocks (VGGPerceptualLoss_init F vgg16_features rs)) = 4"
    by (simp add: blocks_init)
  show "\<forall>bl \<in> set (blocks (VGGPerceptualLoss_init F vgg16_features rs)).
      \<not> seq_training bl \<and>
      (\<forall>l \<in> set (seq_layers bl). \<not> ltraining l) \<and>
      (\<forall>p \<in> set (parameters bl). \<not> requires_grad p)"
    using frozen_init [of F vgg16_features rs] by (simp only: frozen_def)
next
  fix w :: "('t, 's) world"
  assume v: "vgg_loss (self w) = VGGPerceptualLoss_init F vgg16_features rs"
  then have fr: "frozen (vgg_loss (self w))" by (simp add: frozen_init)
  show "snd (vgg_loss_call F input target w) = w" by (simp add: vgg_loss_call_def)
  show "self (snd (run_G F P A c sync w)) = self w"
    using fr by (rule preserves_run_G [unfolded preserves_self_def, rule_format])
  show "self (snd (run_D img c sync w)) = self w"
    using fr by (rule preserves_run_D [unfolded preserves_self_def, rule_format])
  show "self (snd (accumulate_gradients F phase img_s img_t ap_s ap_t pose_s pose_t real_c
                     gen_c sync gain w)) = self w"
    using fr
    by (rule preserves_accumulate_gradients [unfolded preserves_self_def, rule_format])
qed

text \<open>The theorem on the small instance: the five parameters of the pretrained network
  require a gradient, those of the four blocks do not, and the object is the same after
  the calls.\<close>

theorem C6_witness:
  "vgg_loss (self toy_world) = VGGPerceptualLoss_init toy_torch toy_features True \<and>
   map requires_grad (parameters toy_features) = [True, True, True, True, True] \<and>
   map (\<lambda>bl. map requires_grad (parameters bl)) (blocks (vgg_loss (self toy_world)))
     = [[False, False, False, False], [False], [], []] \<and>
   map seq_training (blocks (vgg_loss (self toy_world))) = [False, False, False, False] \<and>
   self (snd (run_G toy_torch 1 2 3 True toy_world)) = self toy_world \<and>
   self (snd (run_D 1 3 True toy_world)) = self toy_world \<and>
   self (snd (accumulate_gradients toy_torch ''Gmain'' 1 2 3 4 5 6 7 8 True 1 toy_world))
     = self toy_world"
proof -
  have h: "vgg_loss (self toy_world) = VGGPerceptualLoss_init toy_torch toy_features True"
    by (simp add: toy_world_def toy_loss_def StyleGAN2Loss_init_def)
  have p: "map requires_grad (parameters toy_features) = [True, True, True, True, True]"
    by code_simp
  have q: "map (\<lambda>bl. map requires_grad (parameters bl)) (blocks (vgg_loss (self toy_world)))
     = [[False, False, False, False], [False], [], []]"
    by code_simp
  have r: "map seq_training (blocks (vgg_loss (self toy_world))) = [False, False, False, False]"
    by code_simp
  note t = C6_vgg_frozen [where F = toy_torch and ?vgg16_features = toy_features and rs = True
      and P = 1 and A = 2 and c = 3 and sync = True and img = 1 and phase = "''Gmain''"
      and img_s = 1 and img_t = 2 and ap_s = 3 and ap_t = 4 and pose_s = 5 and pose_t = 6
      and real_c = 7 and gen_c = 8 and gain = 1,
      THEN conjunct2, THEN conjunct2, rule_format, OF h]
  show ?thesis using h p q r t by blast
qed

subsection \<open>C7\<close>

text \<open>
  Claim C7. \<^verbatim>\<open>run_D\<close> returns the discriminator's output on the augmented image when the
  object has an augmentation pipe, and on the image itself when \<^verbatim>\<open>augment_pipe\<close> is
  \<^verbatim>\<open>None\<close>; the label is passed unchanged in both cases.
\<close>

theorem C7_run_D_augment_optional:
  "run_D img c sync w =
     (case augment_pipe (self w) of
        Some pipe \<Rightarrow>
          (Inr (fst (D (self w) sync (fst (pipe img (ext w))) c (snd (pipe img (ext w))))),
           w\<lparr>ext := snd (D (self w) sync (fst (pipe img (ext w))) c (snd (pipe img (ext w))))\<rparr>)
      | None \<Rightarrow>
          (Inr (fst (D (self w) sync img c (ext w))),
           w\<lparr>ext := snd (D (self w) sync img c (ext w))\<rparr>))"
  by (simp add: run_D_def M_simps split: option.splits)

text \<open>The theorem on the small instance, without and with a pipe (which doubles the
  image).\<close>

theorem C7_witness:
  "run_D 3 1 True toy_world = (Inr 2, toy_world\<lparr>ext := 1\<rparr>) \<and>
   run_D 3 1 True toy_world_augmented = (Inr 5, toy_world_augmented\<lparr>ext := 2\<rparr>)"
proof -
  have s: "augment_pipe (self toy_world) = None" "D (self toy_world) = toy_D"
    "ext toy_world = 0"
    "augment_pipe (self toy_world_augmented) = Some toy_augment"
    "D (self toy_world_augmented) = toy_D" "ext toy_world_augmented = 0"
    by (simp_all add: toy_world_augmented_def toy_world_def toy_loss_def StyleGAN2Loss_init_def)
  show ?thesis
    using C7_run_D_augment_optional [of 3 1 True toy_world]
      C7_run_D_augment_optional [of 3 1 True toy_world_augmented]
    by (simp add: s toy_D_def toy_augment_def)
qed

subsection \<open>C8\<close>

text \<open>
  Claim C8. \<^verbatim>\<open>Loss.accumulate_gradients\<close> raises NotImplementedError for all arguments, and
  changes nothing.
\<close>

theorem C8_Loss_not_implemented:
  "Loss_accumulate_gradients phase img_s img_t ap_s ap_t pose_s pose_t real_c gen_c sync gain w
     = (Inl NotImplementedError, w)"
  by (simp add: Loss_accumulate_gradients_def)

subsection \<open>C9\<close>



subsection \<open>C10\<close>

text \<open>
  Claim C10. Take two objects built by the constructor from the same arguments except
  \<^verbatim>\<open>pl_batch_shrink\<close>, \<^verbatim>\<open>pl_decay\<close>, \<^verbatim>\<open>pl_weight\<close> and \<^verbatim>\<open>l1_weight\<close>, in the same
  outside world and with the same statistics and gradients so far. Then \<^verbatim>\<open>run_G\<close>,
  \<^verbatim>\<open>run_D\<close> and \<^verbatim>\<open>accumulate_gradients\<close>, called with the same arguments, give the same
  result (the losses returned or the error raised), the same outside world, and the same
  sequence of reported statistics and \<open>.backward()\<close> calls; and \<^verbatim>\<open>accumulate_gradients\<close>
  leaves the same feature extractor.
\<close>

theorem C10_unused_hyperparameters:
  fixes F :: "('t, 's) torch" and w :: "('t, 's) world"
  assumes "self w = StyleGAN2Loss_init F vgg16_features dev Gm Gs An Dn aug smp r1
                      plbs pld plw l1w"
    and "self w' = StyleGAN2Loss_init F vgg16_features dev Gm Gs An Dn aug smp r1
                      plbs' pld' plw' l1w'"
    and "ext w' = ext w" and "trace w' = trace w"
  shows "fst (run_G F P A c sync w') = fst (run_G F P A c sync w) \<and>
     ext (snd (run_G F P A c sync w')) = ext (snd (run_G F P A c sync w)) \<and>
     trace (snd (run_G F P A c sync w')) = trace (snd (run_G F P A c sync w)) \<and>
     fst (run_D img c sync w') = fst (run_D img c sync w) \<and>
     ext (snd (run_D img c sync w')) = ext (snd (run_D img c sync w)) \<and>
     trace (snd (run_D img c sync w')) = trace (snd (run_D img c sync w)) \<and>
     fst (accumulate_gradients F phase img_s img_t ap_s ap_t pose_s pose_t real_c gen_c sync
            gain w')
       = fst (accumulate_gradients F phase img_s img_t ap_s ap_t pose_s pose_t real_c gen_c
                sync gain w) \<and>
     ext (snd (accumulate_gradients F phase img_s img_t ap_s ap_t pose_s pose_t real_c gen_c
                 sync gain w'))
       = ext (snd (accumulate_gradients F phase img_s img_t ap_s ap_t pose_s pose_t real_c
                     gen_c sync gain w)) \<and>
     trace (snd (accumulate_gradients F phase img_s img_t ap_s ap_t pose_s pose_t real_c gen_c
                   sync gain w'))
       = trace (snd (accumulate_gradients F phase img_s img_t ap_s ap_t pose_s pose_t real_c
                       gen_c sync gain w)) \<and>
     vgg_loss (self (snd (accumulate_gradients F phase img_s img_t ap_s ap_t pose_s pose_t
                            real_c gen_c sync gain w')))
       = vgg_loss (self (snd (accumulate_gradients F phase img_s img_t ap_s ap_t pose_s pose_t
                                real_c gen_c sync gain w)))"
proof -
  have "self w' = (self w)\<lparr>l1_weight := l1w', pl_batch_shrink := plbs', pl_decay := pld',
                              pl_weight := plw'\<rparr>"
    using assms(1, 2) by (simp add: StyleGAN2Loss_init_def)
  then show ?thesis
    using assms(3, 4) by (rule unused_fields_ignored)
qed

text \<open>The theorem on the small instance, in the phase Dmain, for two objects that differ
  in all four fields.\<close>

theorem C10_witness:
  "self toy_world =
     StyleGAN2Loss_init toy_torch toy_features ''cuda'' toy_G_mapping toy_G_synthesis toy_ANet
       toy_D None 0.9 10 2 0.01 2 50 \<and>
   self toy_world_other =
     StyleGAN2Loss_init toy_torch toy_features ''cuda'' toy_G_mapping toy_G_synthesis toy_ANet
       toy_D None 0.9 10 1 1 0 0 \<and>
   ext toy_world_other = ext toy_world \<and> trace toy_world_other = trace toy_world \<and>
   fst (accumulate_gradients toy_torch ''Dmain'' 1 2 3 4 5 6 7 8 True 1 toy_world_other)
     = fst (accumulate_gradients toy_torch ''Dmain'' 1 2 3 4 5 6 7 8 True 1 toy_world) \<and>
   trace (snd (accumulate_gradients toy_torch ''Dmain'' 1 2 3 4 5 6 7 8 True 1
                 toy_world_other))
     = trace (snd (accumulate_gradients toy_torch ''Dmain'' 1 2 3 4 5 6 7 8 True 1
                     toy_world)) \<and>
   fst (accumulate_gradients toy_torch ''Dmain'' 1 2 3 4 5 6 7 8 True 1 toy_world_other)
     = Inr (0, 0, 12, 0, 15)"
proof -
  have h1: "self toy_world =
     StyleGAN2Loss_init toy_torch toy_features ''cuda'' toy_G_mapping toy_G_synthesis toy_ANet
       toy_D None 0.9 10 2 0.01 2 50"
    by (simp add: toy_world_def toy_loss_def)
  have h2: "self toy_world_other =
     StyleGAN2Loss_init toy_torch toy_features ''cuda'' toy_G_mapping toy_G_synthesis toy_ANet
       toy_D None 0.9 10 1 1 0 0"
    by (simp add: toy_world_other_def)
  have h3: "ext toy_world_other = ext toy_world"
    by (simp add: toy_world_other_def toy_world_def)
  have h4: "trace toy_world_other = trace toy_world"
    by (simp add: toy_world_other_def toy_world_def)
  note t = C10_unused_hyperparameters [OF h1 h2 h3 h4, where phase = "''Dmain''"
      and img_s = 1 and img_t = 2 and ap_s = 3 and ap_t = 4
      and pose_s = 5 and pose_t = 6 and real_c = 7 and gen_c = 8 and sync = True and gain = 1]
  have v: "fst (accumulate_gradients toy_torch ''Dmain'' 1 2 3 4 5 6 7 8 True 1 toy_world_other)
     = Inr (0, 0, 12, 0, 15)"
    by code_simp
  show ?thesis using h1 h2 h3 h4 t v by blast
qed

end
